theory Spec2Isabelle
  imports Complex_Main
begin

section \<open>Numbers, errors and numpy helpers\<close>

text \<open>
  The program computes with IEEE double precision numbers. The embedding uses the real
  numbers for every finite value, so rounding is not modelled. Where the source divides
  and the divisor can be zero, numpy does not raise: it returns an infinity or a NaN.
  HOL's \<open>x / 0 = 0\<close> would hide that, so such a quotient has the type \<open>npfloat\<close>.
  Signed zeros are not modelled.
\<close>

datatype npfloat = Fin real | PInf | NInf | NaN

definition np_div :: "real \<Rightarrow> real \<Rightarrow> npfloat" where
  "np_div a b =
     (if b \<noteq> 0 then Fin (a / b)
      else if 0 < a then PInf
      else if a < 0 then NInf
      else NaN)"

text \<open>
  Python exceptions are values. An exception carries its format string and the values
  formatted into it, in the order of the source's \<open>%\<close> tuple. \<open>RootResults\<close> is the
  result object that scipy's root finder returns under \<open>full_output=True\<close>; its printed form
  shows these fields and a flag that repeats \<open>converged\<close>. \<open>ExternalError\<close> stands for any
  exception raised inside a library the program calls.
\<close>

record RootResults =
  converged :: bool
  root :: real
  iterations :: nat
  function_calls :: nat

datatype fmtarg = R real | S string | I RootResults

datatype error =
    ValueError string "fmtarg list"
  | RuntimeError string "fmtarg list"
  | IndexError
  | KeyError string
  | AttributeError string
  | ZeroDivisionError
  | ExternalError string

definition halfpi :: real where
  "halfpi = pi / 2"

definition twopi :: real where
  "twopi = 2 * pi"

definition np_clip :: "real \<Rightarrow> real \<Rightarrow> real \<Rightarrow> real" where
  "np_clip v lo hi = min (max v lo) hi"

text \<open>
  \<open>np.arctan2 y x\<close> on finite reals: the angle of the point \<open>(x, y)\<close> in
  \<open>(-pi, pi]\<close>, and \<open>0\<close> at the origin.
\<close>

definition arctan2 :: "real \<Rightarrow> real \<Rightarrow> real" where
  "arctan2 y x =
     (if 0 < x then arctan (y / x)
      else if x < 0 then (if 0 \<le> y then arctan (y / x) + pi else arctan (y / x) - pi)
      else if 0 < y then pi / 2
      else if y < 0 then - (pi / 2)
      else 0)"

section \<open>Coordinate transforms (geometry.py)\<close>

definition cart_to_sph :: "real \<Rightarrow> real \<Rightarrow> real \<Rightarrow> real \<times> real \<times> real" where
  "cart_to_sph x y z =
     (let r = sqrt (x\<^sup>2 + y\<^sup>2 + z\<^sup>2);
          lat = arcsin (np_clip (z / max r (1 / 10 ^ 10)) (- 1) 1);
          lon = arctan2 y x
      in (lat, lon, r))"

definition sph_to_cart :: "real \<Rightarrow> real \<Rightarrow> real \<Rightarrow> real \<times> real \<times> real" where
  "sph_to_cart lat lon r =
     (let x = r * cos lat * cos lon;
          y = r * cos lat * sin lon;
          z = r * sin lat
      in (x, y, z))"

definition rot2d :: "real \<Rightarrow> real \<Rightarrow> real \<Rightarrow> real \<times> real" where
  "rot2d u v theta =
     (let c = cos theta;
          s = sin theta;
          uprime = c * u + - s * v;
          vprime = s * u + c * v
      in (uprime, vprime))"

subsection \<open>ObserverToBodycentric\<close>

record ObserverToBodycentric =
  loc :: real
  cml :: real

text \<open>
  \<open>astutil.angcen\<close> belongs to the pwkit library, not to this repository; the
  constructor takes it as a parameter.
\<close>

definition ObserverToBodycentric_init ::
  "(real \<Rightarrow> real) \<Rightarrow> real \<Rightarrow> real \<Rightarrow> error + ObserverToBodycentric" where
  "ObserverToBodycentric_init angcen loc0 cml0 =
     (if loc0 < 0 \<or> loc0 > halfpi
      then Inl (ValueError ''illegal latitude-of-center %r'' [R loc0])
      else Inr \<lparr>loc = loc0, cml = angcen cml0\<rparr>)"

subsection \<open>TiltedDipoleField\<close>

record TiltedDipoleField =
  tilt :: real
  moment :: real

definition TiltedDipoleField_init :: "real \<Rightarrow> real \<Rightarrow> error + TiltedDipoleField" where
  "TiltedDipoleField_init tilt0 moment0 =
     (if tilt0 < 0 \<or> tilt0 \<ge> pi
      then Inl (ValueError ''illegal tilt value %r'' [R tilt0])
      else Inr \<lparr>tilt = tilt0, moment = moment0\<rparr>)"

definition to_dc :: "TiltedDipoleField \<Rightarrow> real \<Rightarrow> real \<Rightarrow> real \<Rightarrow> real \<times> real \<times> real" where
  "to_dc self bc_lat bc_lon bc_r =
     (case sph_to_cart bc_lat bc_lon bc_r of (x, y, z) \<Rightarrow>
        let ctilt = cos (tilt self);
            stilt = sin (tilt self);
            zprime = ctilt * z + stilt * x;
            xprime = - stilt * z + ctilt * x
        in cart_to_sph xprime y zprime)"


text \<open>\<open>TiltedDipoleField.__call__\<close>: body-centric to magnetic coordinates.\<close>

definition magnetic_coordinates ::
  "TiltedDipoleField \<Rightarrow> real \<Rightarrow> real \<Rightarrow> real \<Rightarrow> real \<times> real \<times> npfloat" where
  "magnetic_coordinates self bc_lat bc_lon bc_r =
     (case to_dc self bc_lat bc_lon bc_r of (dc_lat, dc_lon, dc_r) \<Rightarrow>
        let L = np_div dc_r ((cos dc_lat)\<^sup>2)
        in (dc_lat, dc_lon, L))"

text \<open>
  The representative in \<open>(-pi, pi]\<close> of a longitude in \<open>(-pi, 2 pi)\<close>: the range of
  \<open>np.arctan2\<close>, in which \<open>cart_to_sph\<close> returns its longitude.
\<close>

definition wrap_lon :: "real \<Rightarrow> real" where
  "wrap_lon lon = (if lon \<le> pi then lon else lon - 2 * pi)"

section \<open>The simulation setup and rays (geometry.py)\<close>

type_synonym vec3 = "real \<times> real \<times> real"
type_synonym vec4 = "real \<times> real \<times> real \<times> real"
type_synonym magcoord = "real \<times> real \<times> npfloat"

text \<open>Values that can sit in an attribute of a ray or be passed to the calculator.\<close>

datatype pyval = PyNone | PyNum real | PyArr "real list" | PyOther

text \<open>
  \<open>VanAllenSetup\<close> holds duck-typed collaborators; the record holds the methods that the
  ray code calls on them. \<open>o2b\<close> is \<open>setup.o2b(x, y, z)\<close>, \<open>bfield\<close> is
  \<open>setup.bfield(lat, lon, r)\<close>, \<open>bhat\<close> and \<open>bmag\<close> are methods of the field,
  \<open>theta_zhat\<close> and \<open>theta_yhat_projected\<close> methods of the observer transform,
  \<open>parameter_names\<close> and \<open>get_samples\<close> belong to \<open>setup.distrib\<close>, \<open>param_names\<close>
  and \<open>get_coeffs\<close> to \<open>setup.synch_calc\<close>. The particle distribution returns the
  density first (the source demands it) and then its other parameters. The synchrotron
  calculator is an external library: it may raise, and it returns arrays of shape
  \<open>(n, 4)\<close>, \<open>(n, 4)\<close> and \<open>(n, 3)\<close>. Every method is applied point by point where the
  source applies it to arrays.
\<close>

record VanAllenSetup =
  o2b :: "real \<Rightarrow> real \<Rightarrow> real \<Rightarrow> vec3"
  theta_zhat :: "real \<Rightarrow> real \<Rightarrow> real \<Rightarrow> vec3 \<Rightarrow> real"
  theta_yhat_projected :: "real \<Rightarrow> real \<Rightarrow> real \<Rightarrow> vec3 \<Rightarrow> real"
  bfield :: "vec3 \<Rightarrow> magcoord"
  bhat :: "vec3 \<Rightarrow> vec3"
  bmag :: "vec3 \<Rightarrow> real"
  parameter_names :: "string list"
  get_samples :: "magcoord \<Rightarrow> bool \<Rightarrow> real \<times> real list"
  param_names :: "string list"
  get_coeffs :: "real \<Rightarrow> pyval \<Rightarrow> pyval \<Rightarrow> pyval \<Rightarrow> pyval \<Rightarrow> (string \<times> pyval) list
                   \<Rightarrow> error + (vec4 list \<times> vec4 list \<times> vec3 list)"
  radius :: real
  nu :: real

text \<open>
  A ray. The attributes that the class declares are fields, \<open>None\<close> until assigned. The
  attributes that \<open>setattr\<close> creates from the distribution's parameter names (among them
  \<open>n_e\<close> and \<open>p\<close>) are kept in \<open>ray_attrs\<close>, the latest assignment first.
\<close>

record Ray =
  ray_setup :: VanAllenSetup
  ray_x :: real
  ray_y :: real
  ray_z :: "real list"
  ray_s :: "real list option"
  ray_bc :: "vec3 list option"
  ray_mc :: "magcoord list option"
  ray_theta :: "real list option"
  ray_B :: "real list option"
  ray_psi :: "real list option"
  ray_j :: "vec4 list option"
  ray_alpha :: "vec4 list option"
  ray_rho :: "vec3 list option"
  ray_attrs :: "(string \<times> real list) list"

definition np_linspace :: "real \<Rightarrow> real \<Rightarrow> nat \<Rightarrow> real list" where
  "np_linspace start stop num =
     map (\<lambda>i. start + real i * ((stop - start) / real (num - 1))) [0..<num]"

text \<open>
  \<open>np.arange(start, stop, step)\<close> for a step that is not zero: the values
  \<open>start + i * step\<close> for \<open>i\<close> below \<open>ceil((stop - start) / step)\<close>, none when that
  is not positive. For a zero step numpy raises; \<open>create_ray\<close>, the only caller, has
  that case as its first branch.
\<close>

definition np_arange :: "real \<Rightarrow> real \<Rightarrow> real \<Rightarrow> real list" where
  "np_arange start stop step =
     map (\<lambda>i. start + real i * step) [0..<nat \<lceil>(stop - start) / step\<rceil>]"

definition setattr :: "string \<Rightarrow> real list \<Rightarrow> Ray \<Rightarrow> Ray" where
  "setattr name v self = self\<lparr>ray_attrs := (name, v) # ray_attrs self\<rparr>"

definition Ray_init ::
  "real \<Rightarrow> real \<Rightarrow> real list \<Rightarrow> VanAllenSetup \<Rightarrow> bool \<Rightarrow> bool \<Rightarrow> error + Ray" where
  "Ray_init x y z setup zeros no_init =
     (let self = \<lparr>ray_setup = setup, ray_x = x, ray_y = y, ray_z = z, ray_s = None,
                  ray_bc = None, ray_mc = None, ray_theta = None, ray_B = None, ray_psi = None,
                  ray_j = None, ray_alpha = None, ray_rho = None, ray_attrs = []\<rparr>
      in if no_init then Inr self
         else if z = [] then Inl (ValueError ''zero-size array to reduction operation minimum'' [])
         else
           let zmin = Min (set z);
               bc = map (o2b setup x y) z;
               mc = map (bfield setup) bc;
               self = self\<lparr>ray_s := Some (map (\<lambda>zi. (zi - zmin) * radius setup) z),
                           ray_bc := Some bc, ray_mc := Some mc\<rparr>
           in if zeros then
                let self = self\<lparr>ray_theta := Some (replicate (length z) 0),
                                 ray_B := Some (replicate (length z) 0),
                                 ray_psi := Some (replicate (length z) 0)\<rparr>
                in Inr (fold (\<lambda>pn. setattr pn (replicate (length z) 0)) (parameter_names setup) self)
              else
                let bh = map (bhat setup) bc;
                    self = self\<lparr>ray_theta := Some (map2 (theta_zhat setup x y) z bh),
                                 ray_B := Some (map (bmag setup) bc),
                                 ray_psi := Some (map2 (theta_yhat_projected setup x y) z bh)\<rparr>;
                    cols = transpose (map (\<lambda>m. case get_samples setup m False of
                                                  (ne, rest) \<Rightarrow> ne # rest) mc)
                in Inr (fold (\<lambda>(pn, pv). setattr pn pv) (zip (parameter_names setup) cols) self))"

text \<open>
  \<open>getattr(self, n)\<close>: an attribute created by \<open>setattr\<close> wins; then come the
  attributes that the class declares, \<open>n_e\<close> and \<open>p\<close> with their class default
  \<open>None\<close>; any other name raises AttributeError. Attributes whose values are not numbers
  or vectors read as \<open>PyOther\<close>.
\<close>

definition opt_arr :: "real list option \<Rightarrow> pyval" where
  "opt_arr v = (case v of None \<Rightarrow> PyNone | Some a \<Rightarrow> PyArr a)"

definition opt_other :: "'a option \<Rightarrow> pyval" where
  "opt_other v = (case v of None \<Rightarrow> PyNone | Some a \<Rightarrow> PyOther)"

definition getattr :: "Ray \<Rightarrow> string \<Rightarrow> error + pyval" where
  "getattr self n =
     (case map_of (ray_attrs self) n of
        Some v \<Rightarrow> Inr (PyArr v)
      | None \<Rightarrow>
          if n = ''B'' then Inr (opt_arr (ray_B self))
          else if n = ''theta'' then Inr (opt_arr (ray_theta self))
          else if n = ''psi'' then Inr (opt_arr (ray_psi self))
          else if n = ''s'' then Inr (opt_arr (ray_s self))
          else if n = ''z'' then Inr (PyArr (ray_z self))
          else if n = ''x'' then Inr (PyNum (ray_x self))
          else if n = ''y'' then Inr (PyNum (ray_y self))
          else if n = ''n_e'' \<or> n = ''p'' then Inr PyNone
          else if n = ''j'' then Inr (opt_other (ray_j self))
          else if n = ''alpha'' then Inr (opt_other (ray_alpha self))
          else if n = ''rho'' then Inr (opt_other (ray_rho self))
          else if n = ''bc'' then Inr (opt_other (ray_bc self))
          else if n = ''mc'' then Inr (opt_other (ray_mc self))
          else if n = ''setup'' then Inr PyOther
          else Inl (AttributeError n))"

text \<open>The dictionary comprehension over the calculator's parameter names.\<close>

fun collect_extras :: "(string \<Rightarrow> error + pyval) \<Rightarrow> string list \<Rightarrow> error + (string \<times> pyval) list" where
  "collect_extras look [] = Inr []"
| "collect_extras look (n # ns) =
     (case look n of
        Inl e \<Rightarrow> Inl e
      | Inr v \<Rightarrow> (case collect_extras look ns of Inl e \<Rightarrow> Inl e | Inr vs \<Rightarrow> Inr ((n, v) # vs)))"

definition the_attr :: "error + pyval \<Rightarrow> pyval" where
  "the_attr v = (case v of Inl e \<Rightarrow> PyNone | Inr a \<Rightarrow> a)"

definition ensure_rt_coeffs :: "Ray \<Rightarrow> error + Ray" where
  "ensure_rt_coeffs self =
     (if ray_j self = None then
        (case collect_extras (getattr self) (param_names (ray_setup self)) of
           Inl e \<Rightarrow> Inl e
         | Inr extras \<Rightarrow>
             (case get_coeffs (ray_setup self) (nu (ray_setup self)) (opt_arr (ray_B self))
                     (the_attr (getattr self ''n_e'')) (opt_arr (ray_theta self))
                     (opt_arr (ray_psi self)) extras of
                Inl e \<Rightarrow> Inl e
              | Inr (j, alpha, rho) \<Rightarrow>
                  Inr (self\<lparr>ray_j := Some j, ray_alpha := Some alpha, ray_rho := Some rho\<rparr>)))
      else Inr self)"

subsection \<open>The ray tracers\<close>

record BasicRayTracer =
  way_back_z :: real
  way_front_z :: real
  surface_delta_radius :: real
  ne0_cutoff :: real
  delta_z :: real
  nsamps :: nat

record FormalRayTracer = BasicRayTracer +
  warn_n_pts :: nat
  min_n_pts :: nat

text \<open>The class attributes as the source sets them.\<close>

definition BasicRayTracer_new :: BasicRayTracer where
  "BasicRayTracer_new =
     \<lparr>way_back_z = - 15, way_front_z = 15, surface_delta_radius = 3 / 100, ne0_cutoff = 1,
      delta_z = 1, nsamps = 300\<rparr>"

definition FormalRayTracer_new :: FormalRayTracer where
  "FormalRayTracer_new =
     \<lparr>way_back_z = - 15, way_front_z = 15, surface_delta_radius = 3 / 100, ne0_cutoff = 1,
      delta_z = 1, nsamps = 300, warn_n_pts = 1000, min_n_pts = 200\<rparr>"

definition z_to_ne :: "VanAllenSetup \<Rightarrow> real \<Rightarrow> real \<Rightarrow> real \<Rightarrow> real" where
  "z_to_ne setup x y z =
     (let bc = o2b setup x y z;
          mc = bfield setup bc
      in fst (get_samples setup mc True))"

text \<open>The local variables \<open>z0\<close>, \<open>zsamps\<close> and \<open>nesamps\<close> of \<open>create_ray\<close>.\<close>

definition start_z0 :: "'a BasicRayTracer_scheme \<Rightarrow> real \<Rightarrow> real \<Rightarrow> real" where
  "start_z0 self x y =
     (if x\<^sup>2 + y\<^sup>2 \<le> 1 then sqrt ((1 + surface_delta_radius self)\<^sup>2 - (x\<^sup>2 + y\<^sup>2))
      else way_back_z self)"

definition coarse_zsamps :: "'a BasicRayTracer_scheme \<Rightarrow> real \<Rightarrow> real \<Rightarrow> real list" where
  "coarse_zsamps self x y = np_arange (start_z0 self x y) (way_front_z self) (delta_z self)"

definition coarse_nesamps ::
  "'a BasicRayTracer_scheme \<Rightarrow> real \<Rightarrow> real \<Rightarrow> VanAllenSetup \<Rightarrow> real list" where
  "coarse_nesamps self x y setup = map (z_to_ne setup x y) (coarse_zsamps self x y)"

text \<open>\<open>zsamps[nesamps > self.ne0_cutoff]\<close>\<close>

definition dense_zsamps ::
  "'a BasicRayTracer_scheme \<Rightarrow> real \<Rightarrow> real \<Rightarrow> VanAllenSetup \<Rightarrow> real list" where
  "dense_zsamps self x y setup =
     map fst (filter (\<lambda>(z, ne). ne > ne0_cutoff self)
                (zip (coarse_zsamps self x y) (coarse_nesamps self x y setup)))"

text \<open>
  \<open>scipy.optimize.brentq(f, a, b, full_output=True)\<close> is an external library function:
  it either raises or returns the root estimate and the result object. The source leaves
  \<open>disp\<close> at its default \<open>True\<close>, and then scipy raises RuntimeError itself when its
  iterations end without convergence: a result object that comes back is a converged one,
  which is \<open>raises_unless_converged\<close>. \<open>_sample_ray\<close> is the method that the tracer's
  class supplies; it receives \<open>x y z0 z1 setup\<close>. A loop that does not end is the value
  \<open>None\<close>.
\<close>

type_synonym brentq_fn = "(real \<Rightarrow> real) \<Rightarrow> real \<Rightarrow> real \<Rightarrow> error + (real \<times> RootResults)"

definition raises_unless_converged :: "brentq_fn \<Rightarrow> bool" where
  "raises_unless_converged brentq
     \<longleftrightarrow> (\<forall>f a b rt info. brentq f a b = Inr (rt, info) \<longrightarrow> converged info)"

definition create_ray ::
  "(real \<Rightarrow> real \<Rightarrow> real \<Rightarrow> real \<Rightarrow> VanAllenSetup \<Rightarrow> (error + Ray) option) \<Rightarrow> brentq_fn
     \<Rightarrow> 'a BasicRayTracer_scheme \<Rightarrow> real \<Rightarrow> real \<Rightarrow> VanAllenSetup \<Rightarrow> (error + Ray) option" where
  "create_ray sample_ray brentq self x y setup =
     (let z0 = start_z0 self x y;
          z1 = way_front_z self;
          nesamps = coarse_nesamps self x y setup;
          ofs_n_e = (\<lambda>z. z_to_ne setup x y z - ne0_cutoff self)
      in if delta_z self = 0 then Some (Inl (ExternalError ''np.arange''))
         else if \<not> (\<exists>ne \<in> set nesamps. ne > ne0_cutoff self)
         then Some (Ray_init x y (np_linspace z0 z1 2) setup True False)
         else
           case (if nesamps ! 0 < ne0_cutoff self then
                   (let zstart = Min (set (dense_zsamps self x y setup))
                    in case brentq ofs_n_e z0 zstart of
                         Inl e \<Rightarrow> Inl e
                       | Inr (z0', info) \<Rightarrow>
                           if \<not> converged info
                           then Inl (RuntimeError ''could not find suitable starting point: %r %r %r''
                                       [R z0', R zstart, I info])
                           else Inr z0')
                 else Inr z0) of
             Inl e \<Rightarrow> Some (Inl e)
           | Inr z0 \<Rightarrow>
               (case (if last nesamps < ne0_cutoff self then
                        (let zstart = Max (set (dense_zsamps self x y setup))
                         in case brentq ofs_n_e z1 zstart of
                              Inl e \<Rightarrow> Inl e
                            | Inr (z1', info) \<Rightarrow>
                                if \<not> converged info
                                then Inl (RuntimeError ''could not find suitable ending point: %r %r %r''
                                            [R z1', R zstart, I info])
                                else Inr z1')
                      else Inr z1) of
                  Inl e \<Rightarrow> Some (Inl e)
                | Inr z1 \<Rightarrow> sample_ray x y z0 z1 setup))"

definition BasicRayTracer_sample_ray ::
  "'a BasicRayTracer_scheme \<Rightarrow> real \<Rightarrow> real \<Rightarrow> real \<Rightarrow> real \<Rightarrow> VanAllenSetup \<Rightarrow> (error + Ray) option" where
  "BasicRayTracer_sample_ray self x y z0 z1 setup =
     Some (Ray_init x y (np_linspace z0 z1 (nsamps self)) setup False False)"

subsection \<open>Adaptive sampling\<close>

text \<open>
  One row of the sample buffer: \<open>z\<close>, \<open>B\<close>, \<open>theta\<close>, \<open>psi\<close>, the coefficients and
  the distribution's values.
\<close>

record sample_row =
  row_z :: real
  row_B :: real
  row_theta :: real
  row_psi :: real
  row_j :: vec4
  row_alpha :: vec4
  row_rho :: vec3
  row_dsamps :: "real list"

text \<open>\<open>dict(zip(names, values))\<close>: of two entries with one key the later one stays.\<close>

definition dict_zip :: "string list \<Rightarrow> 'a list \<Rightarrow> string \<Rightarrow> 'a option" where
  "dict_zip names vals = map_of (rev (zip names vals))"

definition lam1_of :: "vec4 \<Rightarrow> vec3 \<Rightarrow> real" where
  "lam1_of alpha rho =
     (case alpha of (a0, a1, a2c, a3) \<Rightarrow>
      case rho of (r0, r1, r2) \<Rightarrow>
        let a2 = a1\<^sup>2 + a2c\<^sup>2 + a3\<^sup>2;
            rho2 = r1\<^sup>2 + r2\<^sup>2;
            arho = a1 * r0 + a2c * r1 + a3 * r2;
            q = (1 / 2) * (a2 - rho2)
        in sqrt (sqrt (q\<^sup>2 + arho\<^sup>2) + q))"

text \<open>
  Division of a possibly infinite numerator, and Python's \<open>min(a, b)\<close> and \<open>max(a, b)\<close>
  with a float on the right: \<open>b if b < a else a\<close> and \<open>b if b > a else a\<close>; a comparison
  with NaN is false.
\<close>

definition npf_div :: "npfloat \<Rightarrow> real \<Rightarrow> npfloat" where
  "npf_div a b =
     (case a of
        Fin v \<Rightarrow> np_div v b
      | PInf \<Rightarrow> (if b < 0 then NInf else PInf)
      | NInf \<Rightarrow> (if b < 0 then PInf else NInf)
      | NaN \<Rightarrow> NaN)"

definition py_min :: "npfloat \<Rightarrow> real \<Rightarrow> npfloat" where
  "py_min a b =
     (case a of
        Fin v \<Rightarrow> (if b < v then Fin b else Fin v)
      | PInf \<Rightarrow> Fin b
      | NInf \<Rightarrow> NInf
      | NaN \<Rightarrow> NaN)"

definition py_max :: "npfloat \<Rightarrow> real \<Rightarrow> npfloat" where
  "py_max a b =
     (case a of
        Fin v \<Rightarrow> (if b > v then Fin b else Fin v)
      | PInf \<Rightarrow> PInf
      | NInf \<Rightarrow> Fin b
      | NaN \<Rightarrow> NaN)"

text \<open>The step from a sample at \<open>z\<close>, as the loop body computes it.\<close>

definition step_dz ::
  "VanAllenSetup \<Rightarrow> real \<Rightarrow> real \<Rightarrow> real \<Rightarrow> real \<Rightarrow> real \<Rightarrow> sample_row \<Rightarrow> npfloat" where
  "step_dz setup max_dxlam1 max_step_size min_step_size z1 z row =
     (let lam1 = lam1_of (row_alpha row) (row_rho row);
          dx = np_div max_dxlam1 lam1;
          dz = npf_div dx (radius setup);
          dz = py_min dz max_step_size;
          dz = py_min dz (z1 - z);
          dz = py_max dz min_step_size
      in dz)"

text \<open>
  The part of the loop body that evaluates the model at \<open>z\<close> and fills the row. The
  calculator is called with scalars and returns arrays with one row: reading row \<open>0\<close> of
  an empty \<open>alpha\<close> or \<open>rho\<close> raises IndexError, and storing more than one row into the
  buffer's row raises ValueError. Storing the distribution's values into the row's slice
  follows numpy's assignment: equal lengths, or one value that is repeated, and ValueError
  otherwise.
\<close>

definition sample_at :: "VanAllenSetup \<Rightarrow> real \<Rightarrow> real \<Rightarrow> real \<Rightarrow> error + sample_row" where
  "sample_at setup x y z =
     (let bc = o2b setup x y z;
          bh = bhat setup bc;
          theta = theta_zhat setup x y z bh;
          Bv = bmag setup bc;
          psi = theta_yhat_projected setup x y z bh;
          mc = bfield setup bc;
          dsamps = (case get_samples setup mc False of (ne, rest) \<Rightarrow> ne # rest);
          d_extras = dict_zip (parameter_names setup) dsamps
      in case collect_extras (\<lambda>n. case d_extras n of None \<Rightarrow> Inl (KeyError n)
                                                       | Some v \<Rightarrow> Inr (PyNum v))
                (param_names setup) of
           Inl e \<Rightarrow> Inl e
         | Inr sc_extras \<Rightarrow>
             (case get_coeffs setup (nu setup) (PyNum Bv) (PyNum (dsamps ! 0)) (PyNum theta)
                     (PyNum psi) sc_extras of
                Inl e \<Rightarrow> Inl e
              | Inr (j, alpha, rho) \<Rightarrow>
                  (case alpha of
                     [] \<Rightarrow> Inl IndexError
                   | alpha0 # alpha_more \<Rightarrow>
                       (case rho of
                          [] \<Rightarrow> Inl IndexError
                        | rho0 # rho_more \<Rightarrow>
                            (case j of
                               [j0] \<Rightarrow>
                                 let m = length (parameter_names setup)
                                 in if alpha_more = [] \<and> rho_more = []
                                       \<and> (length dsamps = m \<or> length dsamps = 1)
                                    then Inr \<lparr>row_z = z, row_B = Bv, row_theta = theta,
                                              row_psi = psi, row_j = j0, row_alpha = alpha0,
                                              row_rho = rho0,
                                              row_dsamps = (if length dsamps = m then dsamps
                                                            else replicate m (dsamps ! 0))\<rparr>
                                    else Inl (ValueError ''could not broadcast input array'' [])
                             | _ \<Rightarrow> Inl (ValueError ''could not broadcast input array'' []))))))"

text \<open>
  The \<open>while z <= z1\<close> loop. The buffer that the source doubles when it is full is a list
  that grows; the diagnostic print is left out. A step that is not a finite number ends
  the loop when it is NaN or \<open>+inf\<close> (the comparison then fails) and never ends it when
  it is \<open>-inf\<close>.
\<close>

partial_function (option) sample_loop ::
  "VanAllenSetup \<Rightarrow> real \<Rightarrow> real \<Rightarrow> real \<Rightarrow> real \<Rightarrow> real \<Rightarrow> real \<Rightarrow> real \<Rightarrow> sample_row list
     \<Rightarrow> (error + sample_row list) option" where
  "sample_loop setup x y max_dxlam1 max_step_size min_step_size z1 z buf =
     (if z \<le> z1 then
        (case sample_at setup x y z of
           Inl e \<Rightarrow> Some (Inl e)
         | Inr row \<Rightarrow>
             (case step_dz setup max_dxlam1 max_step_size min_step_size z1 z row of
                Fin dz \<Rightarrow>
                  sample_loop setup x y max_dxlam1 max_step_size min_step_size z1 (z + dz) (buf @ [row])
              | NInf \<Rightarrow> None
              | _ \<Rightarrow> Some (Inr (buf @ [row]))))
      else Some (Inr buf))"

text \<open>
  \<open>FormalRayTracer._sample_ray\<close>. With \<open>min_n_pts = 0\<close> the source fails before a
  sample is stored: the division \<open>(z1 - z0) / self.min_n_pts\<close> raises ZeroDivisionError
  when the bounds are Python floats, as the class attributes and the root finder's
  results are; when one of them is a numpy float (the square root taken for a pixel
  inside the unit disk) the quotient is infinite instead and the buffer, which has no
  row, raises IndexError at the first store. The embedding has one kind of number and
  gives the first of the two; the theorems below are about \<open>min_n_pts\<close> of at least
  \<open>1\<close>.
\<close>

definition FormalRayTracer_sample_ray ::
  "FormalRayTracer \<Rightarrow> real \<Rightarrow> real \<Rightarrow> real \<Rightarrow> real \<Rightarrow> real \<Rightarrow> VanAllenSetup \<Rightarrow> (error + Ray) option" where
  "FormalRayTracer_sample_ray self max_dxlam1 x y z0 z1 setup =
     (if min_n_pts self = 0 then Some (Inl ZeroDivisionError)
      else
        let max_step_size = (z1 - z0) / real (min_n_pts self);
            min_step_size = (1 / 100000) * (z1 - z0)
        in case sample_loop setup x y max_dxlam1 max_step_size min_step_size z1 z0 [] of
             None \<Rightarrow> None
           | Some (Inl e) \<Rightarrow> Some (Inl e)
           | Some (Inr buf) \<Rightarrow>
               (case Ray_init x y (map row_z buf) setup False True of
                  Inl e \<Rightarrow> Some (Inl e)
                | Inr r \<Rightarrow>
                    if buf = [] then Some (Inl IndexError)
                    else
                      let r = r\<lparr>ray_s := Some (map (\<lambda>zi. (zi - ray_z r ! 0) * radius setup) (ray_z r)),
                                 ray_B := Some (map row_B buf),
                                 ray_theta := Some (map row_theta buf),
                                 ray_psi := Some (map row_psi buf),
                                 ray_j := Some (map row_j buf),
                                 ray_alpha := Some (map row_alpha buf),
                                 ray_rho := Some (map row_rho buf)\<rparr>
                      in Some (Inr (fold (\<lambda>(idx, n). setattr n (map (\<lambda>row. row_dsamps row ! idx) buf))
                                      (enumerate 0 (parameter_names setup)) r))))"

section \<open>Integrated images (integrate.py)\<close>

text \<open>
  A pixel is a finite number or NaN (\<open>None\<close>); the HDF5 file is a map from the pair of
  group names to an array of Stokes planes, each plane a list of rows.
\<close>

type_synonym pixel = "real option"
type_synonym image = "pixel list list"

record IntegratedImages =
  ds :: "string \<times> string \<Rightarrow> image list option"
  cml_names :: "string list"
  freq_names :: "string list"
  scale :: real

datatype stokes_sel = Index int | Text string

text \<open>Indexing a Python list or a numpy axis with an integer; negative ones count from the end.\<close>

definition py_index :: "'a list \<Rightarrow> int \<Rightarrow> error + 'a" where
  "py_index xs i =
     (let n = int (length xs);
          k = (if i < 0 then n + i else i)
      in if 0 \<le> k \<and> k < n then Inr (xs ! nat k) else Inl IndexError)"

definition stokesset :: "IntegratedImages \<Rightarrow> int \<Rightarrow> int \<Rightarrow> error + image list" where
  "stokesset self i_cml i_freq =
     (case py_index (cml_names self) i_cml of
        Inl e \<Rightarrow> Inl e
      | Inr c \<Rightarrow>
          (case py_index (freq_names self) i_freq of
             Inl e \<Rightarrow> Inl e
           | Inr f \<Rightarrow>
               (case ds self (c, f) of
                  None \<Rightarrow> Inl (KeyError (''/'' @ c @ ''/'' @ f))
                | Some planes \<Rightarrow> Inr (map (map (map (map_option (\<lambda>v. v * scale self)))) planes))))"

text \<open>\<open>str.lower()\<close> on ASCII text.\<close>

definition char_lower :: "char \<Rightarrow> char" where
  "char_lower c =
     (case map_of (zip ''ABCDEFGHIJKLMNOPQRSTUVWXYZ'' ''abcdefghijklmnopqrstuvwxyz'') c of
        None \<Rightarrow> c
      | Some l \<Rightarrow> l)"

definition str_lower :: "string \<Rightarrow> string" where
  "str_lower s = map char_lower s"

text \<open>Arithmetic on pixels; NaN propagates, and \<open>NaN == 0\<close> is false.\<close>

definition px_abs :: "pixel \<Rightarrow> pixel" where
  "px_abs p = map_option abs p"

definition px_hypot :: "pixel \<Rightarrow> pixel \<Rightarrow> pixel" where
  "px_hypot q u =
     (case (q, u) of (Some a, Some b) \<Rightarrow> Some (sqrt (a\<^sup>2 + b\<^sup>2)) | _ \<Rightarrow> None)"

definition px_div :: "pixel \<Rightarrow> pixel \<Rightarrow> pixel" where
  "px_div a b =
     (case (a, b) of (Some v, Some w) \<Rightarrow> (if w = 0 then None else Some (v / w)) | _ \<Rightarrow> None)"

definition img_map :: "(pixel \<Rightarrow> pixel) \<Rightarrow> image \<Rightarrow> image" where
  "img_map f a = map (map f) a"

definition img_map2 :: "(pixel \<Rightarrow> pixel \<Rightarrow> pixel) \<Rightarrow> image \<Rightarrow> image \<Rightarrow> image" where
  "img_map2 f a b = map2 (map2 f) a b"

text \<open>The branch of \<open>frame\<close> for a selector that is not a string; its print is left out.\<close>

definition frame_index :: "IntegratedImages \<Rightarrow> int \<Rightarrow> int \<Rightarrow> int \<Rightarrow> error + image" where
  "frame_index self i_cml i_freq i_stokes =
     (case stokesset self i_cml i_freq of
        Inl e \<Rightarrow> Inl e
      | Inr planes \<Rightarrow> py_index planes i_stokes)"

text \<open>
  The fractional polarisations of \<open>frame\<close>: \<open>no_i = (i == 0)\<close>, \<open>i[no_i] = 1\<close>, the quotient,
  and \<open>f[no_i] = 0\<close>.
\<close>

definition fractional :: "image \<Rightarrow> image \<Rightarrow> image" where
  "fractional num i =
     (let no_i = map (map (\<lambda>p. p = Some 0)) i;
          i1 = map2 (map2 (\<lambda>p m. if m then Some 1 else p)) i no_i;
          f = img_map2 px_div num i1
      in map2 (map2 (\<lambda>p m. if m then Some 0 else p)) f no_i)"

definition frame_text :: "IntegratedImages \<Rightarrow> int \<Rightarrow> int \<Rightarrow> string \<Rightarrow> error + image" where
  "frame_text self i_cml i_freq i_stokes0 =
     (let i_stokes = str_lower i_stokes0 in
      if i_stokes = ''i'' then frame_index self i_cml i_freq 0
      else if i_stokes = ''q'' then frame_index self i_cml i_freq 1
      else if i_stokes = ''u'' then frame_index self i_cml i_freq 2
      else if i_stokes = ''v'' then frame_index self i_cml i_freq 3
      else if i_stokes = ''absv'' then
        (case frame_index self i_cml i_freq 3 of
           Inl e \<Rightarrow> Inl e
         | Inr v \<Rightarrow> Inr (img_map px_abs v))
      else if i_stokes = ''l'' then
        (case frame_index self i_cml i_freq 1 of
           Inl e \<Rightarrow> Inl e
         | Inr q \<Rightarrow>
             (case frame_index self i_cml i_freq 2 of
                Inl e \<Rightarrow> Inl e
              | Inr u \<Rightarrow> Inr (img_map2 px_hypot q u)))
      else if i_stokes = ''fl'' then
        (case frame_index self i_cml i_freq 0 of
           Inl e \<Rightarrow> Inl e
         | Inr i \<Rightarrow>
             (case frame_index self i_cml i_freq 1 of
                Inl e \<Rightarrow> Inl e
              | Inr q \<Rightarrow>
                  (case frame_index self i_cml i_freq 2 of
                     Inl e \<Rightarrow> Inl e
                   | Inr u \<Rightarrow> Inr (fractional (img_map2 px_hypot q u) i))))
      else if i_stokes = ''fc'' then
        (case frame_index self i_cml i_freq 0 of
           Inl e \<Rightarrow> Inl e
         | Inr i \<Rightarrow>
             (case frame_index self i_cml i_freq 3 of
                Inl e \<Rightarrow> Inl e
              | Inr v \<Rightarrow> Inr (fractional v i)))
      else Inl (ValueError ''unrecognized textual i_stokes value %r'' [S i_stokes]))"

definition frame_noflip :: "IntegratedImages \<Rightarrow> int \<Rightarrow> int \<Rightarrow> stokes_sel \<Rightarrow> error + image" where
  "frame_noflip self i_cml i_freq i_stokes =
     (case i_stokes of
        Index k \<Rightarrow> frame_index self i_cml i_freq k
      | Text s \<Rightarrow> frame_text self i_cml i_freq s)"

definition frame :: "IntegratedImages \<Rightarrow> int \<Rightarrow> int \<Rightarrow> stokes_sel \<Rightarrow> bool \<Rightarrow> error + image" where
  "frame self i_cml i_freq i_stokes yflip =
     (if yflip then
        (case frame_noflip self i_cml i_freq i_stokes of
           Inl e \<Rightarrow> Inl e
         | Inr arr \<Rightarrow> Inr (rev arr))
      else frame_noflip self i_cml i_freq i_stokes)"

definition np_nansum :: "image \<Rightarrow> real" where
  "np_nansum arr = sum_list (map (\<lambda>p. case p of None \<Rightarrow> 0 | Some v \<Rightarrow> v) (concat arr))"

definition flux_index :: "IntegratedImages \<Rightarrow> int \<Rightarrow> int \<Rightarrow> int \<Rightarrow> error + real" where
  "flux_index self i_cml i_freq i_stokes =
     (case frame self i_cml i_freq (Index i_stokes) False of
        Inl e \<Rightarrow> Inl e
      | Inr arr \<Rightarrow> Inr (np_nansum arr))"

definition flux_text :: "IntegratedImages \<Rightarrow> int \<Rightarrow> int \<Rightarrow> string \<Rightarrow> error + real" where
  "flux_text self i_cml i_freq i_stokes0 =
     (let i_stokes = str_lower i_stokes0 in
      if i_stokes = ''i'' then flux_index self i_cml i_freq 0
      else if i_stokes = ''q'' then flux_index self i_cml i_freq 1
      else if i_stokes = ''u'' then flux_index self i_cml i_freq 2
      else if i_stokes = ''v'' then flux_index self i_cml i_freq 3
      else if i_stokes = ''absv'' then
        (case flux_index self i_cml i_freq 3 of
           Inl e \<Rightarrow> Inl e
         | Inr v \<Rightarrow> Inr \<bar>v\<bar>)
      else if i_stokes = ''l'' then
        (case flux_index self i_cml i_freq 1 of
           Inl e \<Rightarrow> Inl e
         | Inr q \<Rightarrow>
             (case flux_index self i_cml i_freq 2 of
                Inl e \<Rightarrow> Inl e
              | Inr u \<Rightarrow> Inr (sqrt (q\<^sup>2 + u\<^sup>2))))
      else if i_stokes = ''fl'' then
        (case flux_index self i_cml i_freq 0 of
           Inl e \<Rightarrow> Inl e
         | Inr i \<Rightarrow>
             if i = 0 then Inr 0
             else
               (case flux_index self i_cml i_freq 1 of
                  Inl e \<Rightarrow> Inl e
                | Inr q \<Rightarrow>
                    (case flux_index self i_cml i_freq 2 of
                       Inl e \<Rightarrow> Inl e
                     | Inr u \<Rightarrow> Inr (sqrt (q\<^sup>2 + u\<^sup>2) / i))))
      else if i_stokes = ''fc'' then
        (case flux_index self i_cml i_freq 0 of
           Inl e \<Rightarrow> Inl e
         | Inr i \<Rightarrow>
             if i = 0 then Inr 0
             else
               (case flux_index self i_cml i_freq 3 of
                  Inl e \<Rightarrow> Inl e
                | Inr v \<Rightarrow> Inr (v / i)))
      else Inl (ValueError ''unrecognized textual i_stokes value %r'' [S i_stokes]))"

definition flux :: "IntegratedImages \<Rightarrow> int \<Rightarrow> int \<Rightarrow> stokes_sel \<Rightarrow> error + real" where
  "flux self i_cml i_freq i_stokes =
     (case i_stokes of
        Index k \<Rightarrow> flux_index self i_cml i_freq k
      | Text s \<Rightarrow> flux_text self i_cml i_freq s)"

definition recognized :: "string set" where
  "recognized = {''i'', ''q'', ''u'', ''v'', ''absv'', ''l'', ''fl'', ''fc''}"

section \<open>Concrete inputs\<close>

text \<open>An image file with one rotation, one frequency and four Stokes planes of two pixels.\<close>

definition example_images :: IntegratedImages where
  "example_images =
     \<lparr>ds = (\<lambda>(c, f). if c = ''cml000'' \<and> f = ''nu1p5''
                      then Some [[[Some 2, Some 0]], [[Some 3, Some 3]], [[Some 4, Some 4]],
                                 [[Some (- 1), Some 5]]]
                      else None),
      cml_names = [''cml000''], freq_names = [''nu1p5''], scale = 1\<rparr>"

text \<open>
  A small setup on which the ray code is run: the observer transform is the identity on
  \<open>(x, y, z)\<close>, so the field strength \<open>B\<close> at a sample is its \<open>z\<close>; electrons sit at
  \<open>z = 0\<close> and \<open>z = 1\<close>; the calculator absorbs at \<open>B = 0\<close> only.
\<close>

definition example_setup :: VanAllenSetup where
  "example_setup =
     \<lparr>o2b = (\<lambda>x y z. (x, y, z)),
      theta_zhat = (\<lambda>x y z v. 0),
      theta_yhat_projected = (\<lambda>x y z v. 0),
      bfield = (\<lambda>(a, b, c). (a, b, Fin c)),
      bhat = (\<lambda>bc. (0, 0, 1)),
      bmag = (\<lambda>(a, b, c). c),
      parameter_names = [''n_e'', ''p''],
      get_samples = (\<lambda>(a, b, L) just_ne.
                       if L = Fin 0 \<or> L = Fin 1 then (100, [3]) else (0, [0])),
      param_names = [''p''],
      get_coeffs = (\<lambda>nu Bv ne theta psi extras.
                      case Bv of
                        PyNum b \<Rightarrow> Inr ([(b, 0, 0, 0)],
                                       [(0, if b = 0 then 10000000 / 999 else 0, 0, 0)],
                                       [(0, 0, 0)])
                      | PyArr bs \<Rightarrow> Inr (map (\<lambda>b. (b, 0, 0, 0)) bs,
                                        map (\<lambda>b. (0, if b = 0 then 10000000 / 999 else 0, 0, 0)) bs,
                                        map (\<lambda>b. (0, 0, 0)) bs)
                      | _ \<Rightarrow> Inl (ExternalError ''get_coeffs'')),
      radius = 1,
      nu = 1\<rparr>"

text \<open>The same setup without any electrons.\<close>

definition empty_setup :: VanAllenSetup where
  "empty_setup = example_setup\<lparr>get_samples := (\<lambda>m just_ne. (0, [0]))\<rparr>"

text \<open>
  The root finder on a bracket on which its 100 iterations do not reach the tolerance:
  called as the source calls it, scipy's \<open>brentq\<close> then raises this RuntimeError and
  returns nothing.
\<close>

definition unconverged_brentq :: brentq_fn where
  "unconverged_brentq f a b = Inl (RuntimeError ''Failed to converge after %d iterations.'' [R 100])"

text \<open>
  A tracer whose attributes are set so that the line of sight runs from \<open>-2^1000\<close> to
  \<open>2^1000\<close> with a coarse step of \<open>2^1000\<close>, and a setup with electrons at every \<open>z\<close>
  from \<open>-1\<close> on. The coarse samples are \<open>-2^1000\<close>, without electrons, and \<open>0\<close>, with
  electrons, so the start bound is refined on the bracket \<open>[-2^1000, 0]\<close>. On this
  bracket \<open>brentq\<close> does not converge: the offset density is \<open>-1\<close> below \<open>z = -1\<close> and
  \<open>99\<close> from there on, so the estimate is the end of the bracket where it is \<open>-1\<close>; a
  step of Brent's method is at most three quarters of the bracket, which leaves the
  bracket, of width \<open>2^1000\<close> at the start, wider than \<open>2^800\<close> after \<open>100\<close> steps, far
  above the tolerance of \<open>2e-12\<close>.
\<close>

definition far :: real where
  "far = 2 ^ 1000"

definition wide_tracer :: BasicRayTracer where
  "wide_tracer = BasicRayTracer_new\<lparr>way_back_z := - far, way_front_z := far, delta_z := far\<rparr>"

definition shell_setup :: VanAllenSetup where
  "shell_setup =
     example_setup\<lparr>get_samples := (\<lambda>(a, b, L) just_ne.
                                       case L of
                                         Fin c \<Rightarrow> if - 1 \<le> c then (100, [3]) else (0, [0])
                                       | _ \<Rightarrow> (0, [0]))\<rparr>"

text \<open>
  What the theorems about the adaptive sampler say of a list of \<open>z\<close> coordinates:
  \<open>step_chain lo hi zs\<close> holds when every step between neighbours lies in \<open>[lo, hi]\<close>.
  \<open>loop_post\<close> is what the sampling loop started at \<open>z\<close> adds to its buffer, and
  \<open>result_z\<close> reads the \<open>z\<close> coordinates off a returned ray (none when no ray came back).
\<close>

fun step_chain :: "real \<Rightarrow> real \<Rightarrow> real list \<Rightarrow> bool" where
  "step_chain lo hi (a # b # zs) = (lo \<le> b - a \<and> b - a \<le> hi \<and> step_chain lo hi (b # zs))"
| "step_chain lo hi zs = True"

definition result_z :: "(error + Ray) option \<Rightarrow> real list" where
  "result_z res = (case res of Some (Inr r) \<Rightarrow> ray_z r | _ \<Rightarrow> [])"

definition loop_post :: "real \<Rightarrow> real \<Rightarrow> real \<Rightarrow> real \<Rightarrow> real \<Rightarrow> real list \<Rightarrow> bool" where
  "loop_post m mx mn z1 z zs \<longleftrightarrow>
     (if z \<le> z1
      then zs \<noteq> [] \<and> hd zs = z \<and> step_chain mn (max mn mx) zs \<and> last zs \<le> z1
           \<and> (m \<noteq> 0 \<longrightarrow> z1 - mn < last zs)
      else zs = [])"

text \<open>The buffer row that \<open>sample_at\<close> fills for \<open>example_setup\<close>.\<close>

definition example_row :: "real \<Rightarrow> sample_row" where
  "example_row z =
     \<lparr>row_z = z, row_B = z, row_theta = 0, row_psi = 0, row_j = (z, 0, 0, 0),
      row_alpha = (0, if z = 0 then 10000000 / 999 else 0, 0, 0), row_rho = (0, 0, 0),
      row_dsamps = (if z = 0 \<or> z = 1 then [100, 3] else [0, 0])\<rparr>"

section \<open>Construction-time validation\<close>

text \<open>
  C5. A latitude of centre outside \<open>[0, pi/2]\<close> and a tilt outside \<open>[0, pi)\<close> make the
  constructor raise ValueError; every value inside the range is accepted and stored as
  given, not clamped.
\<close>

theorem C5_construction_validates:
  "(loc0 < 0 \<or> halfpi < loc0 \<longrightarrow>
      ObserverToBodycentric_init angcen loc0 cml0
        = Inl (ValueError ''illegal latitude-of-center %r'' [R loc0]))
   \<and> (0 \<le> loc0 \<and> loc0 \<le> halfpi \<longrightarrow>
      (\<exists>obj. ObserverToBodycentric_init angcen loc0 cml0 = Inr obj \<and> loc obj = loc0))
   \<and> (tilt0 < 0 \<or> pi \<le> tilt0 \<longrightarrow>
      TiltedDipoleField_init tilt0 moment0 = Inl (ValueError ''illegal tilt value %r'' [R tilt0]))
   \<and> (0 \<le> tilt0 \<and> tilt0 < pi \<longrightarrow>
      (\<exists>obj. TiltedDipoleField_init tilt0 moment0 = Inr obj
          \<and> tilt obj = tilt0 \<and> moment obj = moment0))"
  by (auto simp: ObserverToBodycentric_init_def TiltedDipoleField_init_def)

theorem C5_construction_validates_witness:
  "ObserverToBodycentric_init (\<lambda>a. a) (- 1) 0
      = Inl (ValueError ''illegal latitude-of-center %r'' [R (- 1)])
   \<and> (\<exists>obj. ObserverToBodycentric_init (\<lambda>a. a) 0 0 = Inr obj \<and> loc obj = 0)
   \<and> TiltedDipoleField_init 4 3000 = Inl (ValueError ''illegal tilt value %r'' [R 4])
   \<and> (\<exists>obj. TiltedDipoleField_init 1 3000 = Inr obj \<and> tilt obj = 1 \<and> moment obj = 3000)"
proof -
  have a: "(- 1 :: real) < 0 \<or> halfpi < - 1" by simp
  have b: "(0::real) \<le> 0 \<and> (0::real) \<le> halfpi" by (simp add: halfpi_def)
  have c: "(4::real) < 0 \<or> pi \<le> 4" using pi_less_4 by simp
  have d: "(0::real) \<le> 1 \<and> (1::real) < pi" using pi_ge_two by simp
  from C5_construction_validates [of "- 1" "\<lambda>a. a" 0 4 3000] a c
  have 1: "ObserverToBodycentric_init (\<lambda>a. a) (- 1) 0
      = Inl (ValueError ''illegal latitude-of-center %r'' [R (- 1)])"
    and 3: "TiltedDipoleField_init 4 3000 = Inl (ValueError ''illegal tilt value %r'' [R 4])"
    by blast+
  from C5_construction_validates [of 0 "\<lambda>a. a" 0 1 3000] b d
  have 2: "\<exists>obj. ObserverToBodycentric_init (\<lambda>a. a) 0 0 = Inr obj \<and> loc obj = 0"
    and 4: "\<exists>obj. TiltedDipoleField_init 1 3000 = Inr obj \<and> tilt obj = 1 \<and> moment obj = 3000"
    by blast+
  from 1 2 3 4 show ?thesis by blast
qed

section \<open>Stokes selectors\<close>

lemma py_index_not_ValueError: "py_index xs i \<noteq> Inl (ValueError m a)"
  by (simp add: py_index_def Let_def)

lemma stokesset_not_ValueError: "stokesset self c f \<noteq> Inl (ValueError m a)"
  using py_index_not_ValueError
  by (auto simp: stokesset_def split: sum.splits option.splits)

lemma frame_index_not_ValueError: "frame_index self c f k \<noteq> Inl (ValueError m a)"
  using py_index_not_ValueError stokesset_not_ValueError
  by (auto simp: frame_index_def split: sum.splits)

lemma flux_index_not_ValueError: "flux_index self c f k \<noteq> Inl (ValueError m a)"
  using frame_index_not_ValueError
  by (auto simp: flux_index_def frame_def frame_noflip_def split: sum.splits)

lemma frame_text_unrecognized:
  assumes "str_lower s \<notin> recognized"
  shows "frame_text self c f s
           = Inl (ValueError ''unrecognized textual i_stokes value %r'' [S (str_lower s)])"
  using assms unfolding frame_text_def Let_def recognized_def by simp

lemma flux_text_unrecognized:
  assumes "str_lower s \<notin> recognized"
  shows "flux_text self c f s
           = Inl (ValueError ''unrecognized textual i_stokes value %r'' [S (str_lower s)])"
  using assms unfolding flux_text_def Let_def recognized_def by simp

lemma frame_text_recognized:
  assumes "str_lower s \<in> recognized"
  shows "frame_text self c f s \<noteq> Inl (ValueError m a)"
  using assms frame_index_not_ValueError [of self c f]
  unfolding frame_text_def Let_def recognized_def
  by (auto split: sum.splits)

lemma flux_text_recognized:
  assumes "str_lower s \<in> recognized"
  shows "flux_text self c f s \<noteq> Inl (ValueError m a)"
  using assms flux_index_not_ValueError [of self c f]
  unfolding flux_text_def Let_def recognized_def
  by (auto split: sum.splits)

text \<open>
  C9. A textual selector whose lower-case form is not one of \<open>i q u v absv l fl fc\<close> makes
  \<open>frame\<close> and \<open>flux\<close> raise ValueError with the lower-cased text in the message; no
  plane is returned in its place. A recognised selector never raises that ValueError.
\<close>

theorem C9_unrecognized_selector:
  "(str_lower s \<notin> recognized \<longrightarrow>
      frame self i_cml i_freq (Text s) yflip
        = Inl (ValueError ''unrecognized textual i_stokes value %r'' [S (str_lower s)])
      \<and> flux self i_cml i_freq (Text s)
        = Inl (ValueError ''unrecognized textual i_stokes value %r'' [S (str_lower s)]))
   \<and> (str_lower s \<in> recognized \<longrightarrow>
      frame self i_cml i_freq (Text s) yflip \<noteq> Inl (ValueError m a)
      \<and> flux self i_cml i_freq (Text s) \<noteq> Inl (ValueError m a))"
proof (intro conjI impI)
  assume u: "str_lower s \<notin> recognized"
  show "frame self i_cml i_freq (Text s) yflip
        = Inl (ValueError ''unrecognized textual i_stokes value %r'' [S (str_lower s)])"
    by (simp add: frame_def frame_noflip_def frame_text_unrecognized [OF u])
  show "flux self i_cml i_freq (Text s)
        = Inl (ValueError ''unrecognized textual i_stokes value %r'' [S (str_lower s)])"
    by (simp add: flux_def flux_text_unrecognized [OF u])
next
  assume r: "str_lower s \<in> recognized"
  show "frame self i_cml i_freq (Text s) yflip \<noteq> Inl (ValueError m a)"
    using frame_text_recognized [OF r, of self i_cml i_freq m a]
    by (auto simp: frame_def frame_noflip_def split: sum.splits)
  show "flux self i_cml i_freq (Text s) \<noteq> Inl (ValueError m a)"
    using flux_text_recognized [OF r, of self i_cml i_freq m a]
    by (simp add: flux_def)
qed

theorem C9_unrecognized_selector_witness:
  "frame example_images 0 0 (Text ''Xy'') True
      = Inl (ValueError ''unrecognized textual i_stokes value %r'' [S ''xy''])
   \<and> flux example_images 0 0 (Text ''Xy'')
      = Inl (ValueError ''unrecognized textual i_stokes value %r'' [S ''xy''])
   \<and> frame example_images 0 0 (Text ''AbsV'') False
      \<noteq> Inl (ValueError ''unrecognized textual i_stokes value %r'' [S ''absv''])
   \<and> flux example_images 0 0 (Text ''AbsV'')
      \<noteq> Inl (ValueError ''unrecognized textual i_stokes value %r'' [S ''absv''])"
proof -
  have l: "str_lower ''Xy'' = ''xy''" "str_lower ''AbsV'' = ''absv''"
    by (simp_all add: str_lower_def char_lower_def)
  have u: "str_lower ''Xy'' \<notin> recognized" and r: "str_lower ''AbsV'' \<in> recognized"
    unfolding l by (simp_all add: recognized_def)
  from C9_unrecognized_selector [of "''Xy''" example_images 0 0 True] u l
  have 1: "frame example_images 0 0 (Text ''Xy'') True
      = Inl (ValueError ''unrecognized textual i_stokes value %r'' [S ''xy''])"
    and 2: "flux example_images 0 0 (Text ''Xy'')
      = Inl (ValueError ''unrecognized textual i_stokes value %r'' [S ''xy''])"
    by simp_all
  from C9_unrecognized_selector [of "''AbsV''" example_images 0 0 False
      "''unrecognized textual i_stokes value %r''" "[S ''absv'']"] r
  have 3: "frame example_images 0 0 (Text ''AbsV'') False
      \<noteq> Inl (ValueError ''unrecognized textual i_stokes value %r'' [S ''absv''])"
    and 4: "flux example_images 0 0 (Text ''AbsV'')
      \<noteq> Inl (ValueError ''unrecognized textual i_stokes value %r'' [S ''absv''])"
    by simp_all
  from 1 2 3 4 show ?thesis by blast
qed

section \<open>Fractional polarisation\<close>

lemma fractional_nth:
  assumes "r < length num" "r < length i" "k < length (num ! r)" "k < length (i ! r)"
  shows "fractional num i ! r ! k
           = (if i ! r ! k = Some 0 then Some 0 else px_div (num ! r ! k) (i ! r ! k))"
  using assms unfolding fractional_def img_map2_def Let_def
  by (simp add: px_div_def split: option.splits)

lemma img_hypot_nth:
  assumes "r < length q" "r < length u" "k < length (q ! r)" "k < length (u ! r)"
  shows "img_map2 px_hypot q u ! r ! k = px_hypot (q ! r ! k) (u ! r ! k)"
  using assms unfolding img_map2_def by simp

lemma img_hypot_length:
  "length (img_map2 px_hypot q u) = min (length q) (length u)"
  "r < length q \<Longrightarrow> r < length u \<Longrightarrow>
     length (img_map2 px_hypot q u ! r) = min (length (q ! r)) (length (u ! r))"
  unfolding img_map2_def by simp_all

lemma frame_fl:
  assumes s: "str_lower s = ''fl''"
    and i: "frame_index self c f 0 = Inr i"
    and q: "frame_index self c f 1 = Inr q"
    and u: "frame_index self c f 2 = Inr u"
  shows "frame self c f (Text s) yflip
           = Inr (if yflip then rev (fractional (img_map2 px_hypot q u) i)
                  else fractional (img_map2 px_hypot q u) i)"
  using s i q u by (simp add: frame_def frame_noflip_def frame_text_def Let_def)

lemma frame_fc:
  assumes s: "str_lower s = ''fc''"
    and i: "frame_index self c f 0 = Inr i"
    and v: "frame_index self c f 3 = Inr v"
  shows "frame self c f (Text s) yflip
           = Inr (if yflip then rev (fractional v i) else fractional v i)"
  using s i v by (simp add: frame_def frame_noflip_def frame_text_def Let_def)

lemma fl_pixel:
  assumes b: "r < length i" "r < length q" "r < length u"
      "k < length (i ! r)" "k < length (q ! r)" "k < length (u ! r)"
  shows "(i ! r ! k = Some 0 \<longrightarrow> fractional (img_map2 px_hypot q u) i ! r ! k = Some 0)
       \<and> (\<forall>iv qv uv. i ! r ! k = Some iv \<and> iv \<noteq> 0 \<and> q ! r ! k = Some qv \<and> u ! r ! k = Some uv
            \<longrightarrow> fractional (img_map2 px_hypot q u) i ! r ! k = Some (sqrt (qv\<^sup>2 + uv\<^sup>2) / iv))"
proof -
  have "fractional (img_map2 px_hypot q u) i ! r ! k
      = (if i ! r ! k = Some 0 then Some 0
         else px_div (px_hypot (q ! r ! k) (u ! r ! k)) (i ! r ! k))"
    using b by (simp add: fractional_nth img_hypot_length img_hypot_nth)
  then show ?thesis by (auto simp: px_div_def px_hypot_def)
qed

lemma fc_pixel:
  assumes b: "r < length i" "r < length v" "k < length (i ! r)" "k < length (v ! r)"
  shows "(i ! r ! k = Some 0 \<longrightarrow> fractional v i ! r ! k = Some 0)
       \<and> (\<forall>iv vv. i ! r ! k = Some iv \<and> iv \<noteq> 0 \<and> v ! r ! k = Some vv
            \<longrightarrow> fractional v i ! r ! k = Some (vv / iv))"
proof -
  have "fractional v i ! r ! k
      = (if i ! r ! k = Some 0 then Some 0 else px_div (v ! r ! k) (i ! r ! k))"
    using b by (simp add: fractional_nth)
  then show ?thesis by (auto simp: px_div_def)
qed

lemma flux_fl:
  assumes s: "str_lower s = ''fl''"
    and i: "flux_index self c f 0 = Inr i"
  shows "i = 0 \<longrightarrow> flux self c f (Text s) = Inr 0"
    and "i \<noteq> 0 \<and> flux_index self c f 1 = Inr q \<and> flux_index self c f 2 = Inr u
          \<longrightarrow> flux self c f (Text s) = Inr (sqrt (q\<^sup>2 + u\<^sup>2) / i)"
  using s i by (simp_all add: flux_def flux_text_def Let_def)

lemma flux_fc:
  assumes s: "str_lower s = ''fc''"
    and i: "flux_index self c f 0 = Inr i"
  shows "i = 0 \<longrightarrow> flux self c f (Text s) = Inr 0"
    and "i \<noteq> 0 \<and> flux_index self c f 3 = Inr v \<longrightarrow> flux self c f (Text s) = Inr (v / i)"
  using s i by (simp_all add: flux_def flux_text_def Let_def)

lemma ex_frame_index:
  "frame_index example_images 0 0 0 = Inr [[Some 2, Some 0]]"
  "frame_index example_images 0 0 1 = Inr [[Some 3, Some 3]]"
  "frame_index example_images 0 0 2 = Inr [[Some 4, Some 4]]"
  "frame_index example_images 0 0 3 = Inr [[Some (- 1), Some 5]]"
  by (simp_all add: frame_index_def stokesset_def py_index_def example_images_def Let_def)

lemma ex_flux_index:
  "flux_index example_images 0 0 0 = Inr 2"
  "flux_index example_images 0 0 1 = Inr 6"
  "flux_index example_images 0 0 2 = Inr 8"
  "flux_index example_images 0 0 3 = Inr 4"
  by (simp_all add: flux_index_def frame_def frame_noflip_def ex_frame_index np_nansum_def)


lemma flux_index_nansum:
  assumes "frame_index self c f k = Inr a"
  shows "flux_index self c f k = Inr (np_nansum a)"
  using assms by (simp add: flux_index_def frame_def frame_noflip_def)

text \<open>
  C10. For the selectors \<open>fl\<close> and \<open>fc\<close>, a pixel of \<open>frame\<close> where Stokes I is
  exactly zero is \<open>0\<close>, and a pixel where I is a nonzero number is
  \<open>sqrt (Q\<^sup>2 + U\<^sup>2) / I\<close> or \<open>V / I\<close>; \<open>flux\<close> returns \<open>0\<close> when the summed I is zero
  and the same quotients of the summed planes otherwise. The four Stokes planes are the
  ones that the file holds for the chosen rotation and frequency.
\<close>

theorem C10_fractional_polarization_guarded:
  assumes i: "frame_index self c f 0 = Inr i"
    and q: "frame_index self c f 1 = Inr q"
    and u: "frame_index self c f 2 = Inr u"
    and v: "frame_index self c f 3 = Inr v"
  shows
    "(str_lower s = ''fl'' \<longrightarrow>
        (\<exists>fl. frame self c f (Text s) yflip = Inr (if yflip then rev fl else fl)
           \<and> (\<forall>r k. r < length i \<and> r < length q \<and> r < length u
                  \<and> k < length (i ! r) \<and> k < length (q ! r) \<and> k < length (u ! r) \<longrightarrow>
                (i ! r ! k = Some 0 \<longrightarrow> fl ! r ! k = Some 0)
                \<and> (\<forall>iv qv uv. i ! r ! k = Some iv \<and> iv \<noteq> 0 \<and> q ! r ! k = Some qv
                       \<and> u ! r ! k = Some uv \<longrightarrow>
                     fl ! r ! k = Some (sqrt (qv\<^sup>2 + uv\<^sup>2) / iv))))
        \<and> flux self c f (Text s)
            = Inr (if np_nansum i = 0 then 0
                   else sqrt ((np_nansum q)\<^sup>2 + (np_nansum u)\<^sup>2) / np_nansum i))
     \<and> (str_lower s = ''fc'' \<longrightarrow>
        (\<exists>fc. frame self c f (Text s) yflip = Inr (if yflip then rev fc else fc)
           \<and> (\<forall>r k. r < length i \<and> r < length v \<and> k < length (i ! r) \<and> k < length (v ! r) \<longrightarrow>
                (i ! r ! k = Some 0 \<longrightarrow> fc ! r ! k = Some 0)
                \<and> (\<forall>iv vv. i ! r ! k = Some iv \<and> iv \<noteq> 0 \<and> v ! r ! k = Some vv \<longrightarrow>
                     fc ! r ! k = Some (vv / iv))))
        \<and> flux self c f (Text s)
            = Inr (if np_nansum i = 0 then 0 else np_nansum v / np_nansum i))"
proof (intro conjI impI)
  assume s: "str_lower s = ''fl''"
  show "\<exists>fl. frame self c f (Text s) yflip = Inr (if yflip then rev fl else fl)
           \<and> (\<forall>r k. r < length i \<and> r < length q \<and> r < length u
                  \<and> k < length (i ! r) \<and> k < length (q ! r) \<and> k < length (u ! r) \<longrightarrow>
                (i ! r ! k = Some 0 \<longrightarrow> fl ! r ! k = Some 0)
                \<and> (\<forall>iv qv uv. i ! r ! k = Some iv \<and> iv \<noteq> 0 \<and> q ! r ! k = Some qv
                       \<and> u ! r ! k = Some uv \<longrightarrow>
                     fl ! r ! k = Some (sqrt (qv\<^sup>2 + uv\<^sup>2) / iv)))"
    using frame_fl [OF s i q u, of yflip] fl_pixel [of _ i q u] by blast
  show "flux self c f (Text s)
            = Inr (if np_nansum i = 0 then 0
                   else sqrt ((np_nansum q)\<^sup>2 + (np_nansum u)\<^sup>2) / np_nansum i)"
    using flux_fl(1) [OF s flux_index_nansum [OF i]]
      flux_fl(2) [OF s flux_index_nansum [OF i], of "np_nansum q" "np_nansum u"]
      flux_index_nansum [OF q] flux_index_nansum [OF u] by simp
next
  assume s: "str_lower s = ''fc''"
  show "\<exists>fc. frame self c f (Text s) yflip = Inr (if yflip then rev fc else fc)
           \<and> (\<forall>r k. r < length i \<and> r < length v \<and> k < length (i ! r) \<and> k < length (v ! r) \<longrightarrow>
                (i ! r ! k = Some 0 \<longrightarrow> fc ! r ! k = Some 0)
                \<and> (\<forall>iv vv. i ! r ! k = Some iv \<and> iv \<noteq> 0 \<and> v ! r ! k = Some vv \<longrightarrow>
                     fc ! r ! k = Some (vv / iv)))"
    using frame_fc [OF s i v, of yflip] fc_pixel [of _ i v] by blast
  show "flux self c f (Text s)
            = Inr (if np_nansum i = 0 then 0 else np_nansum v / np_nansum i)"
    using flux_fc(1) [OF s flux_index_nansum [OF i]]
      flux_fc(2) [OF s flux_index_nansum [OF i], of "np_nansum v"]
      flux_index_nansum [OF v] by simp
qed

theorem C10_fractional_polarization_guarded_witness:
  "(\<exists>fl. frame example_images 0 0 (Text ''FL'') False = Inr fl
       \<and> fl ! 0 ! 1 = Some 0 \<and> fl ! 0 ! 0 = Some (sqrt (3\<^sup>2 + 4\<^sup>2) / 2))
   \<and> flux example_images 0 0 (Text ''FL'') = Inr (sqrt (6\<^sup>2 + 8\<^sup>2) / 2)
   \<and> (\<exists>fc. frame example_images 0 0 (Text ''fc'') True = Inr (rev fc)
       \<and> fc ! 0 ! 1 = Some 0 \<and> fc ! 0 ! 0 = Some (- 1 / 2))
   \<and> flux example_images 0 0 (Text ''fc'') = Inr (4 / 2)"
proof -
  have l1: "str_lower ''FL'' = ''fl''" and l2: "str_lower ''fc'' = ''fc''"
    by (simp_all add: str_lower_def char_lower_def)
  have n: "np_nansum [[Some 2, Some 0]] = 2" "np_nansum [[Some 3, Some 3]] = 6"
    "np_nansum [[Some 4, Some 4]] = 8" "np_nansum [[Some (- 1), Some 5]] = 4"
    by (simp_all add: np_nansum_def)
  note t1 = C10_fractional_polarization_guarded [OF ex_frame_index, of "''FL''" False]
  note t2 = C10_fractional_polarization_guarded [OF ex_frame_index, of "''fc''" True]
  from t1 l1 obtain fl where fl: "frame example_images 0 0 (Text ''FL'') False = Inr fl"
    and flp: "\<forall>r k. r < length [[Some (2::real), Some 0]] \<and> r < length [[Some (3::real), Some 3]]
                  \<and> r < length [[Some (4::real), Some 4]]
                  \<and> k < length ([[Some (2::real), Some 0]] ! r)
                  \<and> k < length ([[Some (3::real), Some 3]] ! r)
                  \<and> k < length ([[Some (4::real), Some 4]] ! r) \<longrightarrow>
                ([[Some (2::real), Some 0]] ! r ! k = Some 0 \<longrightarrow> fl ! r ! k = Some 0)
                \<and> (\<forall>iv qv uv. [[Some 2, Some 0]] ! r ! k = Some iv \<and> iv \<noteq> 0
                       \<and> [[Some 3, Some 3]] ! r ! k = Some qv
                       \<and> [[Some 4, Some 4]] ! r ! k = Some uv \<longrightarrow>
                     fl ! r ! k = Some (sqrt (qv\<^sup>2 + uv\<^sup>2) / iv))"
    by auto
  from flp [rule_format, of 0 1] have a: "fl ! 0 ! 1 = Some 0" by simp
  from flp [rule_format, of 0 0] have b: "fl ! 0 ! 0 = Some (sqrt (3\<^sup>2 + 4\<^sup>2) / 2)" by simp
  from t1 l1 n have c: "flux example_images 0 0 (Text ''FL'') = Inr (sqrt (6\<^sup>2 + 8\<^sup>2) / 2)"
    by simp
  from t2 l2 obtain fc where fc: "frame example_images 0 0 (Text ''fc'') True = Inr (rev fc)"
    and fcp: "\<forall>r k. r < length [[Some (2::real), Some 0]] \<and> r < length [[Some (- 1::real), Some 5]]
                  \<and> k < length ([[Some (2::real), Some 0]] ! r)
                  \<and> k < length ([[Some (- 1::real), Some 5]] ! r) \<longrightarrow>
                ([[Some (2::real), Some 0]] ! r ! k = Some 0 \<longrightarrow> fc ! r ! k = Some 0)
                \<and> (\<forall>iv vv. [[Some 2, Some 0]] ! r ! k = Some iv \<and> iv \<noteq> 0
                       \<and> [[Some (- 1), Some 5]] ! r ! k = Some vv \<longrightarrow>
                     fc ! r ! k = Some (vv / iv))"
    by auto
  from fcp [rule_format, of 0 1] have d: "fc ! 0 ! 1 = Some 0" by simp
  from fcp [rule_format, of 0 0] have e: "fc ! 0 ! 0 = Some (- 1 / 2)" by simp
  from t2 l2 n have g: "flux example_images 0 0 (Text ''fc'') = Inr (4 / 2)" by simp
  from fl a b c fc d e g show ?thesis by blast
qed

section \<open>Spherical coordinates and the dipole frame\<close>

lemma above_guard_positive:
  assumes "1 / 10 ^ 10 \<le> (r::real)"
  shows "0 < r"
proof -
  have "(0::real) < 1 / 10 ^ 10" by simp
  with assms show ?thesis by linarith
qed

lemma arctan2_polar:
  assumes c: "0 < c" and t1: "- pi < t" and t2: "t \<le> pi"
  shows "arctan2 (c * sin t) (c * cos t) = t"
proof -
  have q: "c * sin t / (c * cos t) = tan t"
    using c by (simp add: tan_def)
  consider (mid) "- (pi / 2) < t" "t < pi / 2"
    | (up) "t = pi / 2" | (down) "t = - (pi / 2)"
    | (left) "pi / 2 < t" | (right) "t < - (pi / 2)"
    by linarith
  then show ?thesis
  proof cases
    case mid
    then have "0 < cos t" by (simp add: cos_gt_zero_pi)
    then have "0 < c * cos t" using c by simp
    then show ?thesis unfolding arctan2_def q using mid by (simp add: arctan_tan)
  next
    case up
    show ?thesis unfolding up arctan2_def using c by simp
  next
    case down
    show ?thesis unfolding down arctan2_def using c by simp
  next
    case left
    have "0 < cos (t - pi)" using left t2 by (intro cos_gt_zero_pi) linarith+
    then have cneg: "cos t < 0" by simp
    have "0 \<le> sin t" using left t2 by (intro sin_ge_zero) linarith+
    then have s: "0 \<le> c * sin t" using c by simp
    have x: "c * cos t < 0" using c cneg by (simp add: mult_pos_neg)
    have "arctan (tan t) = arctan (tan (t - pi))"
      using tan_periodic_pi [of "t - pi"] by simp
    also have "\<dots> = t - pi" using left t2 by (intro arctan_tan) linarith+
    finally show ?thesis unfolding arctan2_def q using x s by simp
  next
    case right
    have "0 < cos (t + pi)" using right t1 by (intro cos_gt_zero_pi) linarith+
    then have cneg: "cos t < 0" by simp
    have "0 < sin (t + pi)" using right t1 by (intro sin_gt_zero) linarith+
    then have "sin t < 0" by simp
    then have s: "c * sin t < 0" using c by (simp add: mult_pos_neg)
    have x: "c * cos t < 0" using c cneg by (simp add: mult_pos_neg)
    have "arctan (tan t) = arctan (tan (t + pi))" by simp
    also have "\<dots> = t + pi" using right t1 by (intro arctan_tan) linarith+
    finally show ?thesis unfolding arctan2_def q using x s by simp
  qed
qed




lemma scaled_cos_sin_squares: "(a * cos t)\<^sup>2 + (a * sin t)\<^sup>2 = (a::real)\<^sup>2"
proof -
  have "(a * cos t)\<^sup>2 + (a * sin t)\<^sup>2 = a\<^sup>2 * ((cos t)\<^sup>2 + (sin t)\<^sup>2)"
    by (simp only: power_mult_distrib distrib_left)
  then show ?thesis by simp
qed

lemma sph_to_cart_norm:
  assumes "0 \<le> r"
  shows "sqrt ((r * cos lat * cos lon)\<^sup>2 + (r * cos lat * sin lon)\<^sup>2 + (r * sin lat)\<^sup>2) = r"
proof -
  have "(r * cos lat * cos lon)\<^sup>2 + (r * cos lat * sin lon)\<^sup>2 = (r * cos lat)\<^sup>2"
    by (rule scaled_cos_sin_squares)
  then have "(r * cos lat * cos lon)\<^sup>2 + (r * cos lat * sin lon)\<^sup>2 + (r * sin lat)\<^sup>2
      = (r * cos lat)\<^sup>2 + (r * sin lat)\<^sup>2"
    by simp
  also have "\<dots> = r\<^sup>2" by (rule scaled_cos_sin_squares)
  finally show ?thesis using assms by simp
qed

lemma cart_to_sph_sph_to_cart:
  assumes r: "1 / 10 ^ 10 \<le> r"
    and lat: "- (pi / 2) < lat" "lat < pi / 2"
    and lon: "- pi < lon" "lon \<le> pi"
  shows "(case sph_to_cart lat lon r of (x, y, z) \<Rightarrow> cart_to_sph x y z) = (lat, lon, r)"
proof -
  have r0: "0 < r" using r by (rule above_guard_positive)
  have n: "sqrt ((r * cos lat * cos lon)\<^sup>2 + (r * cos lat * sin lon)\<^sup>2 + (r * sin lat)\<^sup>2) = r"
    using sph_to_cart_norm [of r lat lon] r0 by simp
  have m: "max r (1 / 10 ^ 10) = r" using r by (simp add: max_def)
  have c: "0 < r * cos lat" using r0 lat by (simp add: cos_gt_zero_pi)
  have a: "arctan2 (r * cos lat * sin lon) (r * cos lat * cos lon) = lon"
    using arctan2_polar [OF c lon] .
  have q: "r * sin lat / r = sin lat" using r0 by simp
  have k: "np_clip (sin lat) (- 1) 1 = sin lat"
    unfolding np_clip_def using sin_ge_minus_one [of lat] sin_le_one [of lat] by linarith
  have l: "arcsin (sin lat) = lat" using lat by (intro arcsin_sin) linarith+
  show ?thesis
    unfolding sph_to_cart_def cart_to_sph_def Let_def prod.case n m a q k l ..
qed



lemma sph_to_cart_shift: "sph_to_cart lat (lon - 2 * pi) r = sph_to_cart lat lon r"
  by (simp add: sph_to_cart_def cos_diff sin_diff)

lemma cart_to_sph_sph_to_cart_wrap:
  assumes r: "1 / 10 ^ 10 \<le> r"
    and lat: "- (pi / 2) < lat" "lat < pi / 2"
    and lon: "- pi < lon" "lon < 2 * pi"
  shows "(case sph_to_cart lat lon r of (x, y, z) \<Rightarrow> cart_to_sph x y z)
           = (lat, wrap_lon lon, r)"
proof (cases "lon \<le> pi")
  case True
  then have "wrap_lon lon = lon" by (simp add: wrap_lon_def)
  then show ?thesis using cart_to_sph_sph_to_cart [OF r lat lon(1) True] by simp
next
  case False
  then have w: "wrap_lon lon = lon - 2 * pi" by (simp add: wrap_lon_def)
  have "- pi < lon - 2 * pi" "lon - 2 * pi \<le> pi" using False lon by linarith+
  from cart_to_sph_sph_to_cart [OF r lat this]
  show ?thesis unfolding sph_to_cart_shift w .
qed





lemma magnetic_coordinates_untilted:
  assumes t: "tilt self = 0"
    and r: "1 / 10 ^ 10 \<le> r"
    and lat: "- (pi / 2) < lat" "lat < pi / 2"
    and lon: "- pi < lon" "lon < 2 * pi"
  shows "magnetic_coordinates self lat lon r
           = (lat, wrap_lon lon, np_div r ((cos lat)\<^sup>2))"
proof -
  obtain x y z where p: "sph_to_cart lat lon r = (x, y, z)" by (cases "sph_to_cart lat lon r")
  have "to_dc self lat lon r = cart_to_sph x y z"
    unfolding to_dc_def p t by simp
  also have "\<dots> = (lat, wrap_lon lon, r)"
    using cart_to_sph_sph_to_cart_wrap [OF r lat lon] p by simp
  finally show ?thesis unfolding magnetic_coordinates_def by simp
qed


lemma cos_squared_one_iff:
  assumes "- (pi / 2) < x" "x < pi / 2"
  shows "(cos x)\<^sup>2 = 1 \<longleftrightarrow> x = 0"
proof
  assume "(cos x)\<^sup>2 = 1"
  then have "(sin x)\<^sup>2 = 0" using sin_cos_squared_add [of x] by simp
  then have "sin x = 0" by simp
  moreover have "\<bar>x\<bar> < pi" using assms by (simp add: abs_less_iff)
  ultimately show "x = 0" by (simp add: sin_zero_pi_iff)
qed simp

text \<open>
  C2, as the code has it. With \<open>tilt = 0\<close>, a latitude strictly between the poles, a
  longitude in \<open>(-pi, 2 pi)\<close> and \<open>r\<close> at least \<open>1e-10\<close>, the transform returns the
  latitude unchanged, the longitude brought into \<open>(-pi, pi]\<close>, and
  \<open>L = r / cos\<^sup>2 lat\<close>, which is \<open>r\<close> on the equator only.
\<close>

theorem C2_untilted_magnetic_coordinates:
  assumes "tilt self = 0"
    and "1 / 10 ^ 10 \<le> r"
    and "- (pi / 2) < lat" and "lat < pi / 2"
    and "- pi < lon" and "lon < 2 * pi"
  shows "magnetic_coordinates self lat lon r
           = (lat, (if lon \<le> pi then lon else lon - 2 * pi), Fin (r / (cos lat)\<^sup>2))
         \<and> (r / (cos lat)\<^sup>2 = r \<longleftrightarrow> lat = 0)"
proof -
  have c: "0 < cos lat" using assms(3,4) by (simp add: cos_gt_zero_pi)
  have r0: "0 < r" using assms(2) by (rule above_guard_positive)
  have w: "wrap_lon lon = (if lon \<le> pi then lon else lon - 2 * pi)"
    by (simp add: wrap_lon_def)
  have d: "np_div r ((cos lat)\<^sup>2) = Fin (r / (cos lat)\<^sup>2)" using c by (simp add: np_div_def)
  have "magnetic_coordinates self lat lon r
           = (lat, (if lon \<le> pi then lon else lon - 2 * pi), Fin (r / (cos lat)\<^sup>2))"
    using magnetic_coordinates_untilted [of self r lat lon] assms w d by simp
  moreover have "r / (cos lat)\<^sup>2 = r \<longleftrightarrow> lat = 0"
  proof -
    have "r / (cos lat)\<^sup>2 = r \<longleftrightarrow> (cos lat)\<^sup>2 = 1"
      using c r0 by (simp add: field_simps)
    then show ?thesis using cos_squared_one_iff [OF assms(3,4)] by simp
  qed
  ultimately show ?thesis by simp
qed

theorem C2_untilted_magnetic_coordinates_witness:
  "magnetic_coordinates \<lparr>tilt = 0, moment = 3000\<rparr> 0 (3 * pi / 2) 2 = (0, - (pi / 2), Fin 2)"
proof -
  have h: "tilt \<lparr>tilt = 0, moment = 3000\<rparr> = 0" "1 / 10 ^ 10 \<le> (2::real)"
    "- (pi / 2) < 0" "(0::real) < pi / 2" "- pi < 3 * pi / 2" "3 * pi / 2 < 2 * pi"
    by simp_all
  from C2_untilted_magnetic_coordinates [OF h] show ?thesis by simp
qed

text \<open>
  C2 as stated fails: at latitude \<open>pi / 4\<close> on the unit sphere the untilted field
  returns \<open>L = 2\<close>, not \<open>L = r = 1\<close>.
\<close>

theorem C2_identity_counterexample:
  "magnetic_coordinates \<lparr>tilt = 0, moment = 3000\<rparr> (pi / 4) 0 1 = (pi / 4, 0, Fin 2)
   \<and> magnetic_coordinates \<lparr>tilt = 0, moment = 3000\<rparr> (pi / 4) 0 1 \<noteq> (pi / 4, 0, Fin 1)"
proof -
  have h: "tilt \<lparr>tilt = 0, moment = 3000\<rparr> = 0" "1 / 10 ^ 10 \<le> (1::real)"
    "- (pi / 2) < pi / 4" "pi / 4 < pi / 2" "- pi < 0" "(0::real) < 2 * pi"
    by simp_all
  have e: "(cos (pi / 4))\<^sup>2 = 1 / 2" by (simp add: cos_45 power_divide)
  have "np_div 1 ((cos (pi / 4))\<^sup>2) = Fin 2" unfolding e by (simp add: np_div_def)
  moreover have "wrap_lon 0 = 0" by (simp add: wrap_lon_def)
  ultimately have "magnetic_coordinates \<lparr>tilt = 0, moment = 3000\<rparr> (pi / 4) 0 1 = (pi / 4, 0, Fin 2)"
    using magnetic_coordinates_untilted [OF h] by simp
  then show ?thesis by simp
qed

text \<open>
  One more input where the untilted transform is not the identity: at \<open>r = 0\<close> the
  latitude is lost.
\<close>

lemma magnetic_coordinates_at_origin:
  "magnetic_coordinates \<lparr>tilt = 0, moment = 3000\<rparr> (pi / 4) 0 0 = (0, 0, Fin 0)"
  by (simp add: magnetic_coordinates_def to_dc_def sph_to_cart_def cart_to_sph_def
      np_clip_def arctan2_def np_div_def)




section \<open>Memoised coefficients\<close>

lemma ensure_rt_coeffs_cached:
  assumes "ray_j r \<noteq> None"
  shows "ensure_rt_coeffs r = Inr r"
  using assms by (cases "ray_j r") (simp_all add: ensure_rt_coeffs_def)

lemma ensure_rt_coeffs_fills:
  assumes "ensure_rt_coeffs r = Inr r'"
  shows "ray_j r' \<noteq> None"
proof (cases "ray_j r = None")
  case True
  with assms show ?thesis
    by (auto simp: ensure_rt_coeffs_def split: sum.splits prod.splits)
next
  case False
  with assms show ?thesis by (simp add: ensure_rt_coeffs_def)
qed

text \<open>
  C7. Once \<open>ensure_rt_coeffs\<close> has returned, the ray holds \<open>j\<close>, and a second call
  returns the ray as it is, with the same \<open>j\<close>, \<open>alpha\<close> and \<open>rho\<close>. It does so
  whatever calculator the setup holds by then, so the calculator is not asked again.
\<close>

theorem C7_ensure_rt_coeffs_idempotent:
  assumes "ensure_rt_coeffs r = Inr r'"
  shows "ray_j r' \<noteq> None
       \<and> ensure_rt_coeffs r' = Inr r'
       \<and> (\<forall>setup'. ensure_rt_coeffs (r'\<lparr>ray_setup := setup'\<rparr>) = Inr (r'\<lparr>ray_setup := setup'\<rparr>))"
proof -
  have j: "ray_j r' \<noteq> None" using assms by (rule ensure_rt_coeffs_fills)
  then have "\<And>setup'. ray_j (r'\<lparr>ray_setup := setup'\<rparr>) \<noteq> None" by simp
  then show ?thesis using j ensure_rt_coeffs_cached by blast
qed

lemma example_empty_ray:
  "Ray_init 0 0 [0, 1] example_setup True False
     = Inr \<lparr>ray_setup = example_setup, ray_x = 0, ray_y = 0, ray_z = [0, 1],
            ray_s = Some [0, 1], ray_bc = Some [(0, 0, 0), (0, 0, 1)],
            ray_mc = Some [(0, 0, Fin 0), (0, 0, Fin 1)],
            ray_theta = Some [0, 0], ray_B = Some [0, 0], ray_psi = Some [0, 0],
            ray_j = None, ray_alpha = None, ray_rho = None,
            ray_attrs = [(''p'', [0, 0]), (''n_e'', [0, 0])]\<rparr>"
  by (simp add: Ray_init_def Let_def setattr_def example_setup_def numeral_2_eq_2)

theorem C7_ensure_rt_coeffs_idempotent_witness:
  "\<exists>r r'. Ray_init 0 0 [0, 1] example_setup True False = Inr r
      \<and> ensure_rt_coeffs r = Inr r'
      \<and> ray_j r = None
      \<and> ray_j r' = Some [(0, 0, 0, 0), (0, 0, 0, 0)]
      \<and> ensure_rt_coeffs r' = Inr r'"
proof -
  define r where "r = \<lparr>ray_setup = example_setup, ray_x = 0, ray_y = 0, ray_z = [0, 1],
            ray_s = Some [0, 1], ray_bc = Some [(0, 0, 0), (0, 0, 1)],
            ray_mc = Some [(0, 0, Fin 0), (0, 0, Fin 1)],
            ray_theta = Some [0, 0], ray_B = Some [0, 0], ray_psi = Some [0, 0],
            ray_j = None, ray_alpha = None, ray_rho = None,
            ray_attrs = [(''p'', [0, 0]), (''n_e'', [0, 0])]\<rparr>"
  have i: "Ray_init 0 0 [0, 1] example_setup True False = Inr r"
    unfolding r_def by (rule example_empty_ray)
  have e: "ensure_rt_coeffs r
      = Inr (r\<lparr>ray_j := Some [(0, 0, 0, 0), (0, 0, 0, 0)],
              ray_alpha := Some [(0, 10000000 / 999, 0, 0), (0, 10000000 / 999, 0, 0)],
              ray_rho := Some [(0, 0, 0), (0, 0, 0)]\<rparr>)"
    by (simp add: ensure_rt_coeffs_def r_def getattr_def example_setup_def opt_arr_def the_attr_def)
  from C7_ensure_rt_coeffs_idempotent [OF e] i e show ?thesis
    by (intro exI [of _ r] exI [of _ "r\<lparr>ray_j := Some [(0, 0, 0, 0), (0, 0, 0, 0)],
              ray_alpha := Some [(0, 10000000 / 999, 0, 0), (0, 10000000 / 999, 0, 0)],
              ray_rho := Some [(0, 0, 0), (0, 0, 0)]\<rparr>"]) (simp add: r_def)
qed

section \<open>Rays without electrons\<close>

lemma np_linspace_2: "np_linspace a b 2 = [a, b]"
  by (simp add: np_linspace_def numeral_2_eq_2)

lemma fold_setattr_attrs:
  "ray_attrs (fold (\<lambda>pn. setattr pn v) names r) = rev (map (\<lambda>pn. (pn, v)) names) @ ray_attrs r"
  by (induction names arbitrary: r) (simp_all add: setattr_def)

lemma fold_setattr_fields:
  "ray_z (fold (\<lambda>pn. setattr pn v) names r) = ray_z r"
  "ray_theta (fold (\<lambda>pn. setattr pn v) names r) = ray_theta r"
  "ray_B (fold (\<lambda>pn. setattr pn v) names r) = ray_B r"
  "ray_psi (fold (\<lambda>pn. setattr pn v) names r) = ray_psi r"
  "ray_j (fold (\<lambda>pn. setattr pn v) names r) = ray_j r"
  "ray_alpha (fold (\<lambda>pn. setattr pn v) names r) = ray_alpha r"
  "ray_rho (fold (\<lambda>pn. setattr pn v) names r) = ray_rho r"
  "ray_s (fold (\<lambda>pn. setattr pn v) names r) = ray_s r"
  by (induction names arbitrary: r) (simp_all add: setattr_def)

lemma map_of_rev_const:
  assumes "pn \<in> set names"
  shows "map_of (rev (map (\<lambda>n. (n, v)) names) @ rest) pn = Some v"
proof -
  let ?xs = "rev (map (\<lambda>n. (n, v)) names)"
  have "pn \<in> fst ` set ?xs" using assms by force
  then obtain w where w: "map_of ?xs pn = Some w"
    by (metis map_of_eq_None_iff not_Some_eq)
  then have "(pn, w) \<in> set ?xs" by (rule map_of_SomeD)
  then have "w = v" by auto
  with w show ?thesis by (simp add: map_add_Some_iff)
qed

lemma getattr_dynamic:
  assumes "map_of (ray_attrs r) pn = Some v"
  shows "getattr r pn = Inr (PyArr v)"
  using assms by (simp add: getattr_def)

lemma Ray_init_zeros:
  assumes "z \<noteq> []"
  shows "\<exists>r. Ray_init x y z setup True False = Inr r
       \<and> ray_z r = z
       \<and> ray_s r = Some (map (\<lambda>zi. (zi - Min (set z)) * radius setup) z)
       \<and> ray_theta r = Some (replicate (length z) 0)
       \<and> ray_B r = Some (replicate (length z) 0)
       \<and> ray_psi r = Some (replicate (length z) 0)
       \<and> ray_j r = None \<and> ray_alpha r = None \<and> ray_rho r = None
       \<and> (\<forall>pn \<in> set (parameter_names setup). getattr r pn = Inr (PyArr (replicate (length z) 0)))"
proof -
  define r0 where "r0 = \<lparr>ray_setup = setup, ray_x = x, ray_y = y, ray_z = z,
      ray_s = Some (map (\<lambda>zi. (zi - Min (set z)) * radius setup) z),
      ray_bc = Some (map (o2b setup x y) z),
      ray_mc = Some (map (bfield setup) (map (o2b setup x y) z)),
      ray_theta = Some (replicate (length z) 0), ray_B = Some (replicate (length z) 0),
      ray_psi = Some (replicate (length z) 0),
      ray_j = None, ray_alpha = None, ray_rho = None, ray_attrs = []\<rparr>"
  define r where "r = fold (\<lambda>pn. setattr pn (replicate (length z) 0)) (parameter_names setup) r0"
  have i: "Ray_init x y z setup True False = Inr r"
    using assms by (simp add: Ray_init_def Let_def r_def r0_def)
  have f: "ray_z r = z" "ray_s r = Some (map (\<lambda>zi. (zi - Min (set z)) * radius setup) z)"
    "ray_theta r = Some (replicate (length z) 0)" "ray_B r = Some (replicate (length z) 0)"
    "ray_psi r = Some (replicate (length z) 0)"
    "ray_j r = None" "ray_alpha r = None" "ray_rho r = None"
    unfolding r_def fold_setattr_fields by (simp_all add: r0_def)
  have g: "getattr r pn = Inr (PyArr (replicate (length z) 0))"
    if "pn \<in> set (parameter_names setup)" for pn
  proof (rule getattr_dynamic)
    show "map_of (ray_attrs r) pn = Some (replicate (length z) 0)"
      unfolding r_def fold_setattr_attrs by (rule map_of_rev_const [OF that])
  qed
  from i f g show ?thesis by blast
qed

text \<open>
  C3. When no coarse sample has a density above the cutoff, \<open>create_ray\<close> returns a ray
  and raises nothing: the two-point ray from the start to the far end, with \<open>theta\<close>,
  \<open>B\<close>, \<open>psi\<close> and every parameter of the distribution zero at both points, and no
  coefficients computed. The tracer's step \<open>delta_z\<close> is positive and its
  \<open>surface_delta_radius\<close> is not negative, as the class sets them.
\<close>

theorem C3_empty_ray_is_not_an_error:
  assumes "\<not> (\<exists>ne \<in> set (coarse_nesamps self x y setup). ne > ne0_cutoff self)"
    and "0 < delta_z self" and "0 \<le> surface_delta_radius self"
  shows "\<exists>r. create_ray sample_ray brentq self x y setup = Some (Inr r)
       \<and> ray_z r = [start_z0 self x y, way_front_z self]
       \<and> ray_theta r = Some [0, 0] \<and> ray_B r = Some [0, 0] \<and> ray_psi r = Some [0, 0]
       \<and> ray_j r = None \<and> ray_alpha r = None \<and> ray_rho r = None
       \<and> (\<forall>pn \<in> set (parameter_names setup). getattr r pn = Inr (PyArr [0, 0]))"
proof -
  have c: "create_ray sample_ray brentq self x y setup
      = Some (Ray_init x y [start_z0 self x y, way_front_z self] setup True False)"
    using assms(1,2) by (simp add: create_ray_def Let_def np_linspace_2)
  from Ray_init_zeros [of "[start_z0 self x y, way_front_z self]" x y "setup"]
  show ?thesis unfolding c by (auto simp: numeral_2_eq_2)
qed

lemma empty_setup_density: "z_to_ne empty_setup x y z = 0"
  by (simp add: z_to_ne_def empty_setup_def example_setup_def)

theorem C3_empty_ray_is_not_an_error_witness:
  "\<exists>r. create_ray (BasicRayTracer_sample_ray BasicRayTracer_new) unconverged_brentq
          BasicRayTracer_new 100 100 empty_setup = Some (Inr r)
       \<and> ray_z r = [- 15, 15]
       \<and> ray_theta r = Some [0, 0] \<and> ray_B r = Some [0, 0] \<and> ray_psi r = Some [0, 0]
       \<and> ray_j r = None \<and> ray_alpha r = None \<and> ray_rho r = None
       \<and> getattr r ''n_e'' = Inr (PyArr [0, 0]) \<and> getattr r ''p'' = Inr (PyArr [0, 0])"
proof -
  have h: "\<not> (\<exists>ne \<in> set (coarse_nesamps BasicRayTracer_new 100 100 empty_setup).
               ne > ne0_cutoff BasicRayTracer_new)"
    by (simp add: coarse_nesamps_def empty_setup_density BasicRayTracer_new_def)
  have d: "0 < delta_z BasicRayTracer_new" "0 \<le> surface_delta_radius BasicRayTracer_new"
    by (simp_all add: BasicRayTracer_new_def)
  have z: "start_z0 BasicRayTracer_new 100 100 = - 15" "way_front_z BasicRayTracer_new = 15"
    by (simp_all add: start_z0_def BasicRayTracer_new_def)
  have p: "parameter_names empty_setup = [''n_e'', ''p'']"
    by (simp add: empty_setup_def example_setup_def)
  from C3_empty_ray_is_not_an_error [OF h d,
      of "BasicRayTracer_sample_ray BasicRayTracer_new" unconverged_brentq]
  show ?thesis unfolding z p by auto
qed

section \<open>Failure of the boundary root finder\<close>

lemma np_arange_zero_step: "np_arange start stop 0 = []"
  by (simp add: np_arange_def)

lemma found_nonzero_step:
  assumes "\<exists>ne \<in> set (coarse_nesamps self x y setup). ne > ne0_cutoff self"
  shows "delta_z self \<noteq> 0"
  using assms by (auto simp: coarse_nesamps_def coarse_zsamps_def np_arange_zero_step)

text \<open>
  An exception of the root finder, at either bound, is what \<open>create_ray\<close> raises:
  nothing is added to it, and no ray is sampled.
\<close>

lemma create_ray_start_raises:
  assumes "\<exists>ne \<in> set (coarse_nesamps self x y setup). ne > ne0_cutoff self"
    and "coarse_nesamps self x y setup ! 0 < ne0_cutoff self"
    and "brentq (\<lambda>z. z_to_ne setup x y z - ne0_cutoff self) (start_z0 self x y)
           (Min (set (dense_zsamps self x y setup))) = Inl e"
  shows "create_ray sample_ray brentq self x y setup = Some (Inl e)"
  using assms found_nonzero_step [OF assms(1)] by (auto simp: create_ray_def Let_def)

lemma create_ray_end_raises:
  assumes "\<exists>ne \<in> set (coarse_nesamps self x y setup). ne > ne0_cutoff self"
    and "\<not> coarse_nesamps self x y setup ! 0 < ne0_cutoff self
         \<or> (\<exists>z0' i0. brentq (\<lambda>z. z_to_ne setup x y z - ne0_cutoff self) (start_z0 self x y)
                (Min (set (dense_zsamps self x y setup))) = Inr (z0', i0) \<and> converged i0)"
    and "last (coarse_nesamps self x y setup) < ne0_cutoff self"
    and "brentq (\<lambda>z. z_to_ne setup x y z - ne0_cutoff self) (way_front_z self)
           (Max (set (dense_zsamps self x y setup))) = Inl e"
  shows "create_ray sample_ray brentq self x y setup = Some (Inl e)"
  using assms found_nonzero_step [OF assms(1)] by (auto simp: create_ray_def Let_def)

text \<open>
  With a root finder that raises unless it has converged, as scipy's does when it is
  called this way, the two \<open>if not info.converged\<close> branches of \<open>create_ray\<close> are never
  taken and it builds no message of its own: it stops at \<open>np.arange\<close>, returns the
  two-point ray without electrons, passes on an exception of the root finder, or goes on
  to sample the ray.
\<close>

lemma create_ray_outcomes:
  assumes "raises_unless_converged brentq"
  shows "create_ray sample_ray brentq self x y setup = Some (Inl (ExternalError ''np.arange''))
       \<or> create_ray sample_ray brentq self x y setup
           = Some (Ray_init x y (np_linspace (start_z0 self x y) (way_front_z self) 2) setup
                     True False)
       \<or> (\<exists>e a b. brentq (\<lambda>z. z_to_ne setup x y z - ne0_cutoff self) a b = Inl e
             \<and> create_ray sample_ray brentq self x y setup = Some (Inl e))
       \<or> (\<exists>z0' z1'. create_ray sample_ray brentq self x y setup = sample_ray x y z0' z1' setup)"
proof -
  have c: "converged info" if "brentq f a b = Inr (rt, info)" for f a b rt info
    using assms that unfolding raises_unless_converged_def by blast
  show ?thesis
    unfolding create_ray_def Let_def
    by (auto split: sum.splits prod.splits dest: c)
qed

text \<open>
  The message that the source formats under \<open>if not info.converged\<close> at the start
  bound. The assignment \<open>z0, info = brentq(ofs_n_e, z0, zstart, full_output=True)\<close> has
  rebound \<open>z0\<close> by then, so the message would hold the returned estimate, \<open>zstart\<close> and
  the result object, and not the outer bound of the bracket.
\<close>

lemma create_ray_own_message:
  assumes "\<exists>ne \<in> set (coarse_nesamps self x y setup). ne > ne0_cutoff self"
    and "coarse_nesamps self x y setup ! 0 < ne0_cutoff self"
    and "brentq (\<lambda>z. z_to_ne setup x y z - ne0_cutoff self) (start_z0 self x y)
           (Min (set (dense_zsamps self x y setup))) = Inr (rt, info)"
    and "\<not> converged info"
  shows "create_ray sample_ray brentq self x y setup
           = Some (Inl (RuntimeError ''could not find suitable starting point: %r %r %r''
                          [R rt, R (Min (set (dense_zsamps self x y setup))), I info]))"
  using assms found_nonzero_step [OF assms(1)] by (auto simp: create_ray_def Let_def)

lemma unconverged_brentq_raises: "raises_unless_converged unconverged_brentq"
  by (simp add: raises_unless_converged_def unconverged_brentq_def)

lemma far_gt_one: "1 < far"
  by (simp add: far_def)

lemma wide_coarse_zsamps: "coarse_zsamps wide_tracer 100 100 = [- far, 0]"
proof -
  have f: "far \<noteq> 0" using far_gt_one by simp
  have "(far - - far) / far = 2" using f by simp
  then have "np_arange (- far) far far = [- far, 0]"
    by (simp add: np_arange_def numeral_2_eq_2)
  then show ?thesis
    by (simp add: coarse_zsamps_def start_z0_def wide_tracer_def BasicRayTracer_new_def)
qed

lemma shell_z_to_ne: "z_to_ne shell_setup x y z = (if - 1 \<le> z then 100 else 0)"
  by (simp add: z_to_ne_def shell_setup_def example_setup_def)

lemma wide_coarse_nesamps: "coarse_nesamps wide_tracer 100 100 shell_setup = [0, 100]"
  using far_gt_one by (simp add: coarse_nesamps_def wide_coarse_zsamps shell_z_to_ne)

lemma wide_dense_zsamps: "dense_zsamps wide_tracer 100 100 shell_setup = [0]"
  unfolding dense_zsamps_def wide_coarse_zsamps wide_coarse_nesamps
  by (simp add: wide_tracer_def BasicRayTracer_new_def)

lemma wide_found:
  "\<exists>ne \<in> set (coarse_nesamps wide_tracer 100 100 shell_setup). ne > ne0_cutoff wide_tracer"
  unfolding wide_coarse_nesamps by (simp add: wide_tracer_def BasicRayTracer_new_def)

lemma wide_ends:
  "coarse_nesamps wide_tracer 100 100 shell_setup ! 0 < ne0_cutoff wide_tracer"
  "start_z0 wide_tracer 100 100 = - far"
  "Min (set (dense_zsamps wide_tracer 100 100 shell_setup)) = 0"
  unfolding wide_coarse_nesamps wide_dense_zsamps
  by (simp_all add: wide_tracer_def BasicRayTracer_new_def start_z0_def)

text \<open>
  C4, at an input where the root finder does not converge. The start bound of the ray
  at pixel \<open>(100, 100)\<close> is refined on the bracket \<open>[-2^1000, 0]\<close>; the root finder
  raises, and \<open>create_ray\<close> raises the same exception: no ray is sampled with an
  unconverged bound, but the message is scipy's and holds the number of iterations only,
  neither \<open>-2^1000\<close> nor \<open>0\<close>, the bounds that were tried.
\<close>

theorem C4_root_finder_failure_lacks_bounds:
  "start_z0 wide_tracer 100 100 = - far
   \<and> Min (set (dense_zsamps wide_tracer 100 100 shell_setup)) = 0
   \<and> create_ray (BasicRayTracer_sample_ray wide_tracer) unconverged_brentq
        wide_tracer 100 100 shell_setup
       = Some (Inl (RuntimeError ''Failed to converge after %d iterations.'' [R 100]))
   \<and> R (- far) \<notin> set [R 100] \<and> R 0 \<notin> set [R 100]"
proof -
  have "create_ray (BasicRayTracer_sample_ray wide_tracer) unconverged_brentq
        wide_tracer 100 100 shell_setup
       = Some (Inl (RuntimeError ''Failed to converge after %d iterations.'' [R 100]))"
    by (rule create_ray_start_raises [OF wide_found wide_ends(1)])
      (simp add: unconverged_brentq_def)
  moreover have "- far \<noteq> 100" using far_gt_one by linarith
  ultimately show ?thesis using wide_ends(2,3) by simp
qed

section \<open>Adaptive sampling: steps, end point and path length\<close>

lemma step_dz_cases:
  "step_dz setup m mx mn z1 z row = NaN
   \<or> (\<exists>d. step_dz setup m mx mn z1 z row = Fin d \<and> mn \<le> d \<and> d \<le> max mn (min mx (z1 - z)))"
proof -
  let ?raw = "npf_div (np_div m (lam1_of (row_alpha row) (row_rho row))) (radius setup)"
  show ?thesis
  proof (cases ?raw)
    case (Fin v)
    then show ?thesis by (auto simp: step_dz_def Let_def py_min_def py_max_def)
  next
    case PInf
    then show ?thesis by (auto simp: step_dz_def Let_def py_min_def py_max_def)
  next
    case NInf
    then show ?thesis by (auto simp: step_dz_def Let_def py_min_def py_max_def)
  next
    case NaN
    then show ?thesis by (auto simp: step_dz_def Let_def py_min_def py_max_def)
  qed
qed

lemma step_dz_not_NaN:
  assumes "m \<noteq> 0"
  shows "step_dz setup m mx mn z1 z row \<noteq> NaN"
proof -
  let ?l = "lam1_of (row_alpha row) (row_rho row)"
  have a: "np_div m ?l \<noteq> NaN" using assms by (simp add: np_div_def)
  have b: "np_div m ?l \<noteq> Fin 0" using assms by (simp add: np_div_def)
  have "npf_div (np_div m ?l) (radius setup) \<noteq> NaN"
    using a b by (cases "np_div m ?l") (auto simp: npf_div_def np_div_def)
  then show ?thesis
    by (cases "npf_div (np_div m ?l) (radius setup)")
       (auto simp: step_dz_def Let_def py_min_def py_max_def)
qed

lemma sample_at_z:
  assumes "sample_at setup x y z = Inr row"
  shows "row_z row = z"
  using assms unfolding sample_at_def Let_def
  by (auto split: sum.splits prod.splits list.splits if_splits)


lemma step_chain_Cons:
  assumes "zs \<noteq> []" "lo \<le> hd zs - a" "hd zs - a \<le> hi" "step_chain lo hi zs"
  shows "step_chain lo hi (a # zs)"
  using assms by (cases zs) simp_all

lemma sample_loop_exit:
  assumes "\<not> z \<le> z1"
  shows "sample_loop setup x y m mx mn z1 z buf = Some (Inr buf)"
  using assms by (subst sample_loop.simps) simp

lemma sample_loop_total:
  assumes mn: "0 < mn"
  shows "\<exists>res. sample_loop setup x y m mx mn z1 z buf = Some res
           \<and> (\<forall>rows. res = Inr rows \<longrightarrow>
                 (\<exists>new. rows = buf @ new \<and> loop_post m mx mn z1 z (map row_z new)))"
proof (induction "nat \<lceil>(z1 - z) / mn\<rceil>" arbitrary: z buf rule: less_induct)
  case less
  show ?case
  proof (cases "z \<le> z1")
    case False
    then show ?thesis
      using sample_loop_exit [of z z1 "setup" x y m mx mn buf] by (simp add: loop_post_def)
  next
    case True
    note zle = True
    show ?thesis
    proof (cases "sample_at setup x y z")
      case (Inl e)
      then show ?thesis using zle by (subst sample_loop.simps) simp
    next
      case (Inr row)
      have rz: "row_z row = z" using Inr by (rule sample_at_z)
      from step_dz_cases [of "setup" m mx mn z1 z row]
      show ?thesis
      proof (elim disjE exE conjE)
        assume nan: "step_dz setup m mx mn z1 z row = NaN"
        then have m0: "m = 0" using step_dz_not_NaN [of m "setup" mx mn z1 z row] by blast
        have "sample_loop setup x y m mx mn z1 z buf = Some (Inr (buf @ [row]))"
          using zle Inr nan by (subst sample_loop.simps) simp
        moreover have "loop_post m mx mn z1 z (map row_z [row])"
          using zle rz m0 by (simp add: loop_post_def)
        ultimately show ?thesis by blast
      next
        fix d
        assume fin: "step_dz setup m mx mn z1 z row = Fin d"
          and lo: "mn \<le> d" and hi: "d \<le> max mn (min mx (z1 - z))"
        have unfold: "sample_loop setup x y m mx mn z1 z buf
            = sample_loop setup x y m mx mn z1 (z + d) (buf @ [row])"
          using zle Inr fin by (subst sample_loop.simps) simp
        show ?thesis
        proof (cases "z + d \<le> z1")
          case False
          have "sample_loop setup x y m mx mn z1 z buf = Some (Inr (buf @ [row]))"
            unfolding unfold using False by (rule sample_loop_exit)
          moreover have "z1 - mn < z" using False hi by (auto simp: max_def min_def split: if_splits)
          then have "loop_post m mx mn z1 z (map row_z [row])"
            using zle rz by (simp add: loop_post_def)
          ultimately show ?thesis by blast
        next
          case True
          have "(z1 - (z + d)) / mn \<le> (z1 - z) / mn - 1"
            using mn lo by (simp add: field_simps)
          then have "\<lceil>(z1 - (z + d)) / mn\<rceil> \<le> \<lceil>(z1 - z) / mn - 1\<rceil>"
            by (rule ceiling_mono)
          then have c1: "\<lceil>(z1 - (z + d)) / mn\<rceil> < \<lceil>(z1 - z) / mn\<rceil>" by simp
          have "1 \<le> (z1 - z) / mn" using mn lo True by (simp add: field_simps)
          then have "0 < (z1 - z) / mn" by linarith
          then have c2: "0 < \<lceil>(z1 - z) / mn\<rceil>" by (simp only: zero_less_ceiling)
          from c1 c2 have "nat \<lceil>(z1 - (z + d)) / mn\<rceil> < nat \<lceil>(z1 - z) / mn\<rceil>"
            by (simp add: zless_nat_conj)
          from less [OF this, of "buf @ [row]"]
          obtain res where res: "sample_loop setup x y m mx mn z1 (z + d) (buf @ [row]) = Some res"
            and post: "\<forall>rows. res = Inr rows \<longrightarrow>
                 (\<exists>new. rows = (buf @ [row]) @ new \<and> loop_post m mx mn z1 (z + d) (map row_z new))"
            by blast
          have "\<exists>new. rows = buf @ new \<and> loop_post m mx mn z1 z (map row_z new)"
            if "res = Inr rows" for rows
          proof -
            from post that obtain new where new: "rows = (buf @ [row]) @ new"
              and p: "loop_post m mx mn z1 (z + d) (map row_z new)" by blast
            from p True have ne: "map row_z new \<noteq> []" and h: "hd (map row_z new) = z + d"
              and c: "step_chain mn (max mn mx) (map row_z new)"
              and l: "last (map row_z new) \<le> z1"
              and g: "m \<noteq> 0 \<longrightarrow> z1 - mn < last (map row_z new)"
              by (simp_all add: loop_post_def)
            have "d \<le> max mn mx" using hi by (auto simp: max_def min_def split: if_splits)
            then have "step_chain mn (max mn mx) (z # map row_z new)"
              using step_chain_Cons [OF ne, of mn z "max mn mx"] h lo c by simp
            then have "loop_post m mx mn z1 z (map row_z (row # new))"
              using zle rz ne l g by (simp add: loop_post_def)
            moreover have "rows = buf @ (row # new)" using new by simp
            ultimately show ?thesis by blast
          qed
          then show ?thesis unfolding unfold using res by blast
        qed
      qed
    qed
  qed
qed


lemma step_chain_sorted:
  "0 < lo \<Longrightarrow> step_chain lo hi zs \<Longrightarrow> sorted_wrt (<) zs"
proof (induction lo hi zs rule: step_chain.induct)
  case (1 lo hi a b zs)
  from "1.prems" have "a < b" by simp
  moreover from 1 have "sorted_wrt (<) (b # zs)" by simp
  ultimately show ?case by (auto intro: less_trans)
qed simp_all

lemma sorted_le_last:
  assumes "sorted_wrt (<) zs" "z \<in> set zs"
  shows "z \<le> last (zs :: real list)"
proof -
  from assms(2) obtain i where i: "i < length zs" "zs ! i = z" by (auto simp: in_set_conv_nth)
  then have ne: "zs \<noteq> []" by auto
  show ?thesis
  proof (cases "i = length zs - 1")
    case True
    then show ?thesis using i ne by (simp add: last_conv_nth)
  next
    case False
    then have "i < length zs - 1" using i by simp
    then have "zs ! i < zs ! (length zs - 1)"
      using sorted_wrt_nth_less [OF assms(1), of i "length zs - 1"] i by simp
    then show ?thesis using i ne by (simp add: last_conv_nth)
  qed
qed

lemma scaled_offsets_sorted:
  assumes "sorted_wrt (<) zs" "0 < (c :: real)"
  shows "sorted_wrt (<) (map (\<lambda>zi. (zi - a) * c) zs)"
proof -
  have "sorted_wrt (\<lambda>u v. (u - a) * c < (v - a) * c) zs"
    using assms by (auto intro: sorted_wrt_mono_rel [where P = "(<)"])
  then show ?thesis by (simp add: sorted_wrt_map)
qed

lemma fold_setattr_enumerate_fields:
  "ray_z (fold (\<lambda>(idx, n). setattr n (f idx)) ps r) = ray_z r"
  "ray_s (fold (\<lambda>(idx, n). setattr n (f idx)) ps r) = ray_s r"
  by (induction ps arbitrary: r) (simp_all add: setattr_def split: prod.splits)

lemma fold_setattr_zip_fields:
  "ray_z (fold (\<lambda>(pn, pv). setattr pn pv) qs r) = ray_z r"
  "ray_s (fold (\<lambda>(pn, pv). setattr pn pv) qs r) = ray_s r"
  by (induction qs arbitrary: r) (simp_all add: setattr_def split: prod.splits)

lemma formal_sample_ray:
  assumes z: "z0 < z1" and n: "0 < min_n_pts self"
  shows "\<exists>res. FormalRayTracer_sample_ray self m x y z0 z1 setup = Some res
           \<and> (\<forall>r. res = Inr r \<longrightarrow>
                 loop_post m ((z1 - z0) / real (min_n_pts self)) ((1 / 100000) * (z1 - z0)) z1 z0
                   (ray_z r)
                 \<and> ray_s r = Some (map (\<lambda>zi. (zi - z0) * radius setup) (ray_z r)))"
proof -
  let ?mx = "(z1 - z0) / real (min_n_pts self)"
  let ?mn = "(1 / 100000) * (z1 - z0)"
  have mn: "0 < ?mn" using z by simp
  from sample_loop_total [OF mn, of "setup" x y m ?mx z1 z0 "[]"]
  obtain res0 where r0: "sample_loop setup x y m ?mx ?mn z1 z0 [] = Some res0"
    and post: "\<forall>rows. res0 = Inr rows \<longrightarrow> loop_post m ?mx ?mn z1 z0 (map row_z rows)"
    by auto
  show ?thesis
  proof (cases res0)
    case (Inl e)
    then show ?thesis using r0 n by (simp add: FormalRayTracer_sample_ray_def Let_def)
  next
    case (Inr rows)
    with post have p: "loop_post m ?mx ?mn z1 z0 (map row_z rows)" by simp
    then have ne: "rows \<noteq> []" and h: "hd (map row_z rows) = z0"
      using z by (auto simp: loop_post_def)
    then have h0: "map row_z rows ! 0 = z0" by (simp add: hd_conv_nth)
    show ?thesis
      using r0 n Inr ne p h0
      by (simp add: FormalRayTracer_sample_ray_def Let_def Ray_init_def
          fold_setattr_enumerate_fields)
  qed
qed


text \<open>
  C1, as the code has it. Between bounds \<open>z0 < z1\<close>, with \<open>min_n_pts\<close> between 1 and
  100000 (so that the minimum step does not exceed the maximum step) and a nonzero
  \<open>max_dxlam1\<close>, the sampling loop ends. If the calculator raised nothing, the ray starts
  at \<open>z0\<close>, every step between stored samples lies between \<open>1e-5 (z1 - z0)\<close> and
  \<open>(z1 - z0) / min_n_pts\<close>, no sample lies beyond \<open>z1\<close>, and the last sample is less than
  one minimum step short of \<open>z1\<close>.
\<close>

theorem C1_adaptive_steps_bounded:
  assumes "z0 < z1" and "0 < min_n_pts self" and "min_n_pts self \<le> 100000"
    and "max_dxlam1 \<noteq> 0"
  shows "\<exists>res. FormalRayTracer_sample_ray self max_dxlam1 x y z0 z1 setup = Some res
           \<and> (\<forall>r. res = Inr r \<longrightarrow>
                 ray_z r \<noteq> [] \<and> hd (ray_z r) = z0
                 \<and> step_chain ((1 / 100000) * (z1 - z0)) ((z1 - z0) / real (min_n_pts self))
                      (ray_z r)
                 \<and> (\<forall>z \<in> set (ray_z r). z \<le> z1)
                 \<and> z1 - (1 / 100000) * (z1 - z0) < last (ray_z r))"
proof -
  let ?mx = "(z1 - z0) / real (min_n_pts self)"
  let ?mn = "(1 / 100000) * (z1 - z0)"
  have mn: "0 < ?mn" using assms(1) by simp
  have "(z1 - z0) * real (min_n_pts self) \<le> (z1 - z0) * 100000"
    using assms(1,3) by (intro mult_left_mono) simp_all
  then have "?mn \<le> ?mx" using assms(2) by (simp add: field_simps)
  then have mm: "max ?mn ?mx = ?mx" by (simp add: max_def)
  from formal_sample_ray [OF assms(1,2), of max_dxlam1 x y "setup"]
  obtain res where res: "FormalRayTracer_sample_ray self max_dxlam1 x y z0 z1 setup = Some res"
    and post: "\<forall>r. res = Inr r \<longrightarrow> loop_post max_dxlam1 ?mx ?mn z1 z0 (ray_z r)"
    by blast
  have "ray_z r \<noteq> [] \<and> hd (ray_z r) = z0 \<and> step_chain ?mn ?mx (ray_z r)
         \<and> (\<forall>z \<in> set (ray_z r). z \<le> z1) \<and> z1 - ?mn < last (ray_z r)"
    if "res = Inr r" for r
  proof -
    from post that assms(1,4) have ne: "ray_z r \<noteq> []" and h: "hd (ray_z r) = z0"
      and c: "step_chain ?mn ?mx (ray_z r)" and l: "last (ray_z r) \<le> z1"
      and g: "z1 - ?mn < last (ray_z r)"
      unfolding loop_post_def mm by simp_all
    have "sorted_wrt (<) (ray_z r)" using step_chain_sorted [OF mn c] .
    then have "\<forall>z \<in> set (ray_z r). z \<le> z1" using sorted_le_last l by fastforce
    with ne h c g show ?thesis by blast
  qed
  with res show ?thesis by blast
qed

lemma example_sample_at: "sample_at example_setup x y z = Inr (example_row z)"
  by (simp add: sample_at_def example_setup_def example_row_def Let_def dict_zip_def)

lemma lam1_of_single: "lam1_of (a0, a, 0, 0) (0, 0, 0) = \<bar>a\<bar>"
proof -
  have "sqrt (((1 / 2) * a\<^sup>2)\<^sup>2) = (1 / 2) * a\<^sup>2" by simp
  then have "sqrt (sqrt (((1 / 2) * a\<^sup>2)\<^sup>2) + (1 / 2) * a\<^sup>2) = sqrt (a\<^sup>2)" by simp
  then show ?thesis by (simp add: lam1_of_def)
qed

lemma example_step_first:
  "step_dz example_setup 50 (1 / 200) (1 / 100000) 1 0 (example_row 0) = Fin (999 / 200000)"
  by (simp add: step_dz_def example_row_def lam1_of_single np_div_def npf_div_def py_min_def
      py_max_def example_setup_def)

lemma example_step_later:
  assumes "z \<noteq> 0"
  shows "step_dz example_setup 50 (1 / 200) (1 / 100000) 1 z (example_row z)
           = Fin (max (min (1 / 200) (1 - z)) (1 / 100000))"
  using assms
  by (simp add: step_dz_def example_row_def lam1_of_single np_div_def npf_div_def py_min_def
      py_max_def example_setup_def max_def min_def)

lemma example_loop_tail:
  assumes "0 < z" "z + real k / 200 = 199999 / 200000"
  shows "sample_loop example_setup 0 0 50 (1 / 200) (1 / 100000) 1 z buf
           = Some (Inr (buf @ map (\<lambda>i. example_row (z + real i / 200)) [0..<Suc k]))"
  using assms
proof (induction k arbitrary: z buf)
  case 0
  then have z: "z = 199999 / 200000" by simp
  have "sample_loop example_setup 0 0 50 (1 / 200) (1 / 100000) 1 z buf
      = sample_loop example_setup 0 0 50 (1 / 200) (1 / 100000) 1 (z + 1 / 100000) (buf @ [example_row z])"
    unfolding z
    by (subst sample_loop.simps) (simp add: example_sample_at example_step_later)
  also have "\<dots> = Some (Inr (buf @ [example_row z]))"
    unfolding z by (rule sample_loop_exit) simp
  finally show ?case by simp
next
  case (Suc k)
  then have zb: "z \<le> 198999 / 200000" and z0: "z \<noteq> 0" by (simp_all add: field_simps)
  then have d: "max (min (1 / 200) (1 - z)) (1 / 100000) = 1 / 200" by (simp add: max_def min_def)
  have "sample_loop example_setup 0 0 50 (1 / 200) (1 / 100000) 1 z buf
      = sample_loop example_setup 0 0 50 (1 / 200) (1 / 100000) 1 (z + 1 / 200) (buf @ [example_row z])"
    using zb by (subst sample_loop.simps) (simp add: example_sample_at example_step_later [OF z0] d)
  also have "\<dots> = Some (Inr ((buf @ [example_row z])
      @ map (\<lambda>i. example_row (z + 1 / 200 + real i / 200)) [0..<Suc k]))"
    using Suc.prems by (intro Suc.IH) (simp_all add: field_simps)
  also have "(buf @ [example_row z]) @ map (\<lambda>i. example_row (z + 1 / 200 + real i / 200)) [0..<Suc k]
      = buf @ map (\<lambda>i. example_row (z + real i / 200)) [0..<Suc (Suc k)]"
    by (simp add: map_upt_Suc [of _ "Suc k"] add_divide_distrib algebra_simps del: upt_Suc)
  finally show ?case .
qed

lemma example_loop:
  "sample_loop example_setup 0 0 50 (1 / 200) (1 / 100000) 1 0 []
     = Some (Inr (example_row 0 # map (\<lambda>i. example_row (999 / 200000 + real i / 200)) [0..<200]))"
proof -
  have "sample_loop example_setup 0 0 50 (1 / 200) (1 / 100000) 1 0 []
      = sample_loop example_setup 0 0 50 (1 / 200) (1 / 100000) 1 (0 + 999 / 200000) ([] @ [example_row 0])"
    by (subst sample_loop.simps) (simp add: example_sample_at example_step_first)
  also have "\<dots> = Some (Inr (([] @ [example_row 0])
      @ map (\<lambda>i. example_row (0 + 999 / 200000 + real i / 200)) [0..<Suc 199]))"
    by (rule example_loop_tail) simp_all
  finally show ?thesis by simp
qed


lemma row_z_example_row: "row_z (example_row z) = z"
  by (simp add: example_row_def)

lemma example_adaptive_ray:
  "\<exists>r. FormalRayTracer_sample_ray FormalRayTracer_new 50 0 0 0 1 example_setup = Some (Inr r)
       \<and> ray_z r = 0 # map (\<lambda>i. 999 / 200000 + real i / 200) [0..<200]"
proof -
  have m: "min_n_pts FormalRayTracer_new = 200" by (simp add: FormalRayTracer_new_def)
  show ?thesis
    unfolding FormalRayTracer_sample_ray_def m
    by (simp add: Let_def example_loop Ray_init_def fold_setattr_enumerate_fields comp_def
        row_z_example_row del: upt_Suc)
qed

lemma example_adaptive_z:
  "result_z (FormalRayTracer_sample_ray FormalRayTracer_new 50 0 0 0 1 example_setup)
     = 0 # map (\<lambda>i. 999 / 200000 + real i / 200) [0..<200]"
  using example_adaptive_ray by (auto simp: result_z_def)

lemma example_adaptive_last:
  "last (0 # map (\<lambda>i. 999 / 200000 + real i / 200) [0..<200]) = 199999 / 200000"
proof -
  have "[0..<200] = [0..<199] @ [199]" using upt_Suc_append [of 0 199] by simp
  then show ?thesis by (simp del: upt_Suc)
qed

theorem C1_adaptive_steps_bounded_witness:
  "\<exists>r. FormalRayTracer_sample_ray FormalRayTracer_new 50 0 0 0 1 example_setup = Some (Inr r)
       \<and> hd (ray_z r) = 0
       \<and> step_chain (1 / 100000) (1 / 200) (ray_z r)
       \<and> last (ray_z r) \<le> 1
       \<and> 1 - 1 / 100000 < last (ray_z r)"
proof -
  have h: "(0::real) < 1" "0 < min_n_pts FormalRayTracer_new"
    "min_n_pts FormalRayTracer_new \<le> 100000" "(50::real) \<noteq> 0"
    by (simp_all add: FormalRayTracer_new_def)
  from example_adaptive_ray obtain r
    where r: "FormalRayTracer_sample_ray FormalRayTracer_new 50 0 0 0 1 example_setup = Some (Inr r)"
    by blast
  from C1_adaptive_steps_bounded [OF h, of 0 0 example_setup] r
  have p: "ray_z r \<noteq> [] \<and> hd (ray_z r) = 0
         \<and> step_chain ((1 / 100000) * (1 - 0)) ((1 - 0) / real (min_n_pts FormalRayTracer_new)) (ray_z r)
         \<and> (\<forall>z \<in> set (ray_z r). z \<le> 1)
         \<and> 1 - (1 / 100000) * (1 - 0) < last (ray_z r)"
    by auto
  then have "last (ray_z r) \<in> set (ray_z r)" by simp
  with p have "last (ray_z r) \<le> 1" by blast
  with p r show ?thesis by (auto simp: FormalRayTracer_new_def)
qed

text \<open>
  C1 as stated fails in its last part. With the class's own attributes, bounds \<open>0\<close> and
  \<open>1\<close>, and a medium that asks for a step of \<open>0.004995\<close> at the first sample only, the
  samples are \<open>0\<close> and \<open>0.004995 + k / 200\<close>; the last one stored is \<open>0.999995\<close>, because
  the step from there is raised to the minimum step and passes \<open>z1 = 1\<close>.
\<close>

theorem C1_last_sample_counterexample:
  "length (result_z (FormalRayTracer_sample_ray FormalRayTracer_new 50 0 0 0 1 example_setup)) = 201
   \<and> last (result_z (FormalRayTracer_sample_ray FormalRayTracer_new 50 0 0 0 1 example_setup))
       = 199999 / 200000"
  unfolding example_adaptive_z example_adaptive_last by simp


lemma np_linspace_props:
  assumes "z0 < z1" "0 < n"
  shows "length (np_linspace z0 z1 n) = n"
    and "np_linspace z0 z1 n \<noteq> []"
    and "np_linspace z0 z1 n ! 0 = z0"
    and "sorted_wrt (<) (np_linspace z0 z1 n)"
    and "Min (set (np_linspace z0 z1 n)) = z0"
proof -
  let ?c = "(z1 - z0) / real (n - 1)"
  let ?zs = "np_linspace z0 z1 n"
  show len: "length ?zs = n" by (simp add: np_linspace_def)
  then show ne: "?zs \<noteq> []" using assms(2) by auto
  show first: "?zs ! 0 = z0" using assms(2) by (simp add: np_linspace_def)
  have c0: "0 \<le> ?c" using assms(1) by simp
  have lt: "z0 + real i * ?c < z0 + real j * ?c" if "i < j" "j < n" for i j
  proof -
    have "1 < n" using that by linarith
    then have "0 < ?c" using assms(1) by simp
    moreover have "real i < real j" using that(1) by simp
    ultimately have "real i * ?c < real j * ?c" by (rule mult_strict_right_mono [rotated])
    then show ?thesis by (rule add_strict_left_mono)
  qed
  show "sorted_wrt (<) ?zs"
    unfolding sorted_wrt_iff_nth_less using lt by (simp add: np_linspace_def)
  show "Min (set ?zs) = z0"
  proof (rule Min_eqI)
    show "finite (set ?zs)" by simp
    show "z0 \<in> set ?zs" using first ne by (metis length_greater_0_conv nth_mem)
    show "z0 \<le> w" if "w \<in> set ?zs" for w
    proof -
      from that have "w \<in> (\<lambda>i. z0 + real i * ?c) ` set [0..<n]"
        unfolding np_linspace_def by (simp only: set_map)
      then obtain i where "w = z0 + real i * ?c" by blast
      moreover have "0 \<le> real i * ?c" using c0 by (intro mult_nonneg_nonneg) simp_all
      ultimately show ?thesis by (simp only: le_add_same_cancel1)
    qed
  qed
qed

lemma basic_sample_ray:
  assumes "z0 < z1" "0 < nsamps self"
  shows "\<exists>r. BasicRayTracer_sample_ray self x y z0 z1 setup = Some (Inr r)
           \<and> ray_z r = np_linspace z0 z1 (nsamps self)
           \<and> ray_s r = Some (map (\<lambda>zi. (zi - z0) * radius setup) (np_linspace z0 z1 (nsamps self)))"
  using np_linspace_props(2,5) [OF assms]
  by (simp add: BasicRayTracer_sample_ray_def Ray_init_def Let_def fold_setattr_zip_fields)

text \<open>
  C8. Between bounds \<open>z0 < z1\<close> and for a positive body radius, the path length \<open>s\<close> of
  the ray of either tracer is \<open>0\<close> at the first sample and strictly increasing. The basic
  tracer has at least one sample to place; the adaptive tracer's loop ends, and the
  statement is about the ray it returns when the calculator raised nothing.
\<close>

theorem C8_path_length_increasing:
  assumes "z0 < z1" and "0 < radius setup"
  shows "(0 < nsamps basic \<longrightarrow>
            (\<exists>r s. BasicRayTracer_sample_ray basic x y z0 z1 setup = Some (Inr r)
                \<and> ray_s r = Some s \<and> length s = nsamps basic
                \<and> s ! 0 = 0 \<and> sorted_wrt (<) s))
       \<and> (0 < min_n_pts formal \<longrightarrow>
            (\<exists>res. FormalRayTracer_sample_ray formal max_dxlam1 x y z0 z1 setup = Some res
                \<and> (\<forall>r. res = Inr r \<longrightarrow>
                      (\<exists>s. ray_s r = Some s \<and> s \<noteq> [] \<and> s ! 0 = 0 \<and> sorted_wrt (<) s))))"
proof (intro conjI impI)
  assume n: "0 < nsamps basic"
  let ?zs = "np_linspace z0 z1 (nsamps basic)"
  let ?s = "map (\<lambda>zi. (zi - z0) * radius setup) ?zs"
  from basic_sample_ray [OF assms(1) n, of x y "setup"]
  obtain r where r: "BasicRayTracer_sample_ray basic x y z0 z1 setup = Some (Inr r)"
    and s: "ray_s r = Some ?s" by blast
  have "length ?s = nsamps basic" using np_linspace_props(1) [OF assms(1) n] by simp
  moreover have "?s ! 0 = 0" using np_linspace_props(1,3) [OF assms(1) n] n by simp
  moreover have "sorted_wrt (<) ?s"
    using scaled_offsets_sorted [OF np_linspace_props(4) [OF assms(1) n] assms(2)] .
  ultimately show "\<exists>r s. BasicRayTracer_sample_ray basic x y z0 z1 setup = Some (Inr r)
                \<and> ray_s r = Some s \<and> length s = nsamps basic
                \<and> s ! 0 = 0 \<and> sorted_wrt (<) s"
    using r s by blast
next
  assume n: "0 < min_n_pts formal"
  let ?mx = "(z1 - z0) / real (min_n_pts formal)"
  let ?mn = "(1 / 100000) * (z1 - z0)"
  have mn: "0 < ?mn" using assms(1) by simp
  from formal_sample_ray [OF assms(1) n, of max_dxlam1 x y "setup"]
  obtain res where res: "FormalRayTracer_sample_ray formal max_dxlam1 x y z0 z1 setup = Some res"
    and post: "\<forall>r. res = Inr r \<longrightarrow> loop_post max_dxlam1 ?mx ?mn z1 z0 (ray_z r)
                 \<and> ray_s r = Some (map (\<lambda>zi. (zi - z0) * radius setup) (ray_z r))"
    by blast
  have "\<exists>s. ray_s r = Some s \<and> s \<noteq> [] \<and> s ! 0 = 0 \<and> sorted_wrt (<) s" if "res = Inr r" for r
  proof -
    let ?s = "map (\<lambda>zi. (zi - z0) * radius setup) (ray_z r)"
    from post that assms(1) have ne: "ray_z r \<noteq> []" and h: "hd (ray_z r) = z0"
      and c: "step_chain ?mn (max ?mn ?mx) (ray_z r)" and s: "ray_s r = Some ?s"
      by (simp_all add: loop_post_def)
    have "sorted_wrt (<) ?s"
      using scaled_offsets_sorted [OF step_chain_sorted [OF mn c] assms(2)] .
    moreover have "?s ! 0 = 0" using ne h by (simp add: hd_conv_nth)
    ultimately show ?thesis using s ne by simp
  qed
  with res show "\<exists>res. FormalRayTracer_sample_ray formal max_dxlam1 x y z0 z1 setup = Some res
                \<and> (\<forall>r. res = Inr r \<longrightarrow>
                      (\<exists>s. ray_s r = Some s \<and> s \<noteq> [] \<and> s ! 0 = 0 \<and> sorted_wrt (<) s))"
    by blast
qed

theorem C8_path_length_increasing_witness:
  "(\<exists>r s. BasicRayTracer_sample_ray BasicRayTracer_new 0 0 0 1 example_setup = Some (Inr r)
       \<and> ray_s r = Some s \<and> length s = 300 \<and> s ! 0 = 0 \<and> sorted_wrt (<) s)
   \<and> (\<exists>r s. FormalRayTracer_sample_ray FormalRayTracer_new 50 0 0 0 1 example_setup = Some (Inr r)
       \<and> ray_s r = Some s \<and> s \<noteq> [] \<and> s ! 0 = 0 \<and> sorted_wrt (<) s)"
proof -
  have h: "(0::real) < 1" "0 < radius example_setup"
    by (simp_all add: example_setup_def)
  have n: "0 < nsamps BasicRayTracer_new" "nsamps BasicRayTracer_new = 300"
    "0 < min_n_pts FormalRayTracer_new"
    by (simp_all add: BasicRayTracer_new_def FormalRayTracer_new_def)
  note t = C8_path_length_increasing [OF h, of BasicRayTracer_new 0 0 FormalRayTracer_new 50]
  from t n have 1: "\<exists>r s. BasicRayTracer_sample_ray BasicRayTracer_new 0 0 0 1 example_setup
      = Some (Inr r) \<and> ray_s r = Some s \<and> length s = 300 \<and> s ! 0 = 0 \<and> sorted_wrt (<) s"
    by simp
  from example_adaptive_ray obtain r
    where r: "FormalRayTracer_sample_ray FormalRayTracer_new 50 0 0 0 1 example_setup = Some (Inr r)"
    by blast
  from t n r have "\<exists>s. ray_s r = Some s \<and> s \<noteq> [] \<and> s ! 0 = 0 \<and> sorted_wrt (<) s" by auto
  with r 1 show ?thesis by blast
qed

end
